theory Spec2Isabelle
  imports Main "HOL-Library.Sublist"
begin

section \<open>Reddit authentication: \<^verbatim>\<open>src/modules/reddit_auth.py\<close>\<close>

text \<open>
  The module is one class, \<^verbatim>\<open>RedditAuth\<close>, whose public entry point
  \<^verbatim>\<open>get_reddit_instance\<close> reads credentials (from a Tk form or from an INI file),
  merges the two-factor code into the password, builds a \<^verbatim>\<open>praw.Reddit\<close> object and
  checks it with \<^verbatim>\<open>reddit.user.me()\<close>. The object is a record that every method takes
  and returns; what the method prints and which collaborators it calls is a list of
  events; an exception is a value.
\<close>

subsection \<open>Python values\<close>

text \<open>
  An attribute of the object is \<^verbatim>\<open>None\<close> or a \<^verbatim>\<open>str\<close>. Truthiness as in
  \<^verbatim>\<open>if x:\<close> and \<^verbatim>\<open>all([...])\<close>: \<^verbatim>\<open>None\<close> and the empty string are false.
\<close>

definition py_truthy :: "string option \<Rightarrow> bool" where
  "py_truthy v = (case v of None \<Rightarrow> False | Some s \<Rightarrow> s \<noteq> [])"

text \<open>\<^verbatim>\<open>s.replace(" ", "")\<close>: every occurrence of the space character U+0020 is removed,
  and no other character.\<close>

definition py_replace_space :: "string \<Rightarrow> string" where
  "py_replace_space s = filter (\<lambda>c. c \<noteq> CHR '' '') s"

text \<open>\<^verbatim>\<open>s.lower()\<close>. The result is only ever compared with \<^verbatim>\<open>"none"\<close>; no character
  outside \<^verbatim>\<open>A-Z\<close> lowers to one of \<^verbatim>\<open>n\<close>, \<^verbatim>\<open>o\<close>, \<^verbatim>\<open>e\<close>, so lowering the
  ASCII letters and keeping every other character decides that comparison as Python does.\<close>

definition ascii_upper :: string where
  "ascii_upper = ''ABCDEFGHIJKLMNOPQRSTUVWXYZ''"

definition ascii_lower :: string where
  "ascii_lower = ''abcdefghijklmnopqrstuvwxyz''"

definition lower_char :: "char \<Rightarrow> char" where
  "lower_char c = (case map_of (zip ascii_upper ascii_lower) c of Some d \<Rightarrow> d | None \<Rightarrow> c)"

definition py_lower :: "string \<Rightarrow> string" where
  "py_lower s = map lower_char s"

text \<open>\<^verbatim>\<open>f"{x}"\<close> for an attribute: \<^verbatim>\<open>None\<close> is formatted as the text \<^verbatim>\<open>None\<close>.\<close>

definition py_format :: "string option \<Rightarrow> string" where
  "py_format v = (case v of None \<Rightarrow> ''None'' | Some s \<Rightarrow> s)"

subsection \<open>Exceptions, events, collaborators\<close>

text \<open>
  The exception classes the entry point can meet. Those the code prints carry their
  \<^verbatim>\<open>str(e)\<close> text; a \<^verbatim>\<open>KeyError\<close> carries the key, an interpolation error the
  option whose value was being interpolated (and the variable that was not found).
  \<^verbatim>\<open>ResponseException\<close> stands for the class and its subclasses, which the same
  \<^verbatim>\<open>except\<close> clause catches; \<^verbatim>\<open>ConfigParserError\<close> is what \<^verbatim>\<open>config.read\<close> raises
  on a file it cannot parse; the three interpolation errors are what a lookup in a parsed
  file raises, subclasses of \<^verbatim>\<open>configparser.Error\<close> and not of \<^verbatim>\<open>LookupError\<close>;
  \<^verbatim>\<open>OtherError\<close> is any other \<^verbatim>\<open>Exception\<close>.
\<close>

datatype exn =
    FileNotFoundError string
  | KeyError string
  | OAuthException string
  | ResponseException string
  | ConfigParserError string
  | InterpolationSyntaxError string
  | InterpolationMissingOptionError string string
  | InterpolationDepthError string
  | OtherError string

text \<open>The keyword arguments of \<^verbatim>\<open>praw.Reddit(...)\<close>, lines 120-126.\<close>

record ctor_args =
  arg_client_id :: "string option"
  arg_client_secret :: "string option"
  arg_username :: "string option"
  arg_password :: "string option"
  arg_user_agent :: string

text \<open>The session is the object the constructor built from its arguments.\<close>

datatype session = Session ctor_args

datatype event =
    Print string
  | TkForm
  | PathExists string
  | ConfigRead string
  | PrawReddit ctor_args
  | UserMe ctor_args

text \<open>What a \<^verbatim>\<open>ConfigParser\<close> holds after \<^verbatim>\<open>read\<close>: the keys of the \<^verbatim>\<open>DEFAULT\<close>
  section and of every named section, each with its raw value (the text of the file, not
  yet interpolated).\<close>

record config =
  cfg_defaults :: "string \<rightharpoonup> string"
  cfg_sections :: "string \<rightharpoonup> (string \<rightharpoonup> string)"

datatype read_result = ParseError string | Parsed config

text \<open>
  What the code calls and does not define.
  \<^item> \<open>gui_get_credentials\<close>: lines 56-59, the Tk window and
    \<^verbatim>\<open>CredentialsInputGUI.get_credentials()\<close> (\<^verbatim>\<open>modules/gui.py\<close> is not among the
    sources): the dictionary of the submitted fields, or an exception.
  \<^item> \<open>path_exists\<close>: \<^verbatim>\<open>os.path.exists\<close>.
  \<^item> \<open>config_read\<close>: \<^verbatim>\<open>ConfigParser().read(path)\<close>; a file that cannot be opened
    reads as the empty configuration.
  \<^item> \<open>optionxform\<close>: \<^verbatim>\<open>ConfigParser.optionxform\<close>, that is \<^verbatim>\<open>str.lower\<close> on any
    text, which the parser applies to the name inside \<^verbatim>\<open>%(name)s\<close>.
  \<^item> \<open>praw_Reddit\<close>: the constructor; \<open>None\<close> when it returns.
  \<^item> \<open>user_me\<close>: \<^verbatim>\<open>reddit.user.me()\<close> on the session built from these arguments;
    \<open>None\<close> when it returns.
\<close>

record env =
  gui_get_credentials :: "exn + (string \<rightharpoonup> string)"
  path_exists :: "string \<Rightarrow> bool"
  config_read :: "string \<Rightarrow> read_result"
  optionxform :: "string \<Rightarrow> string"
  praw_Reddit :: "ctor_args \<Rightarrow> exn option"
  user_me :: "ctor_args \<Rightarrow> exn option"

subsection \<open>Lookups in the parsed file\<close>

definition MAX_INTERPOLATION_DEPTH :: nat where
  "MAX_INTERPOLATION_DEPTH = 10"

text \<open>
  \<^verbatim>\<open>BasicInterpolation._interpolate_some\<close>, the interpolation a \<^verbatim>\<open>ConfigParser\<close> applies
  to every value it returns. \<open>m\<close> is the section's keys over those of \<^verbatim>\<open>DEFAULT\<close>,
  \<open>opt\<close> the option being read. Text up to the next \<^verbatim>\<open>%\<close> is kept; \<^verbatim>\<open>%%\<close> gives
  \<^verbatim>\<open>%\<close>; \<^verbatim>\<open>%(name)s\<close> (the pattern \<^verbatim>\<open>%\(([^)]+)\)s\<close>) gives the value of
  \<open>name\<close>, itself interpolated one level deeper when it contains a \<^verbatim>\<open>%\<close>; any other
  \<^verbatim>\<open>%\<close> is a syntax error. The \<^verbatim>\<open>while\<close> loop is the recursion on the rest of the
  text at the same depth, where the depth test, passed on entry, passes again.
\<close>

function interpolate_some ::
  "(string \<Rightarrow> string) \<Rightarrow> (string \<rightharpoonup> string) \<Rightarrow> string \<Rightarrow> nat \<Rightarrow> string \<Rightarrow> exn + string" where
  "interpolate_some xf m opt depth rest =
     (if depth > MAX_INTERPOLATION_DEPTH then Inl (InterpolationDepthError opt)
      else if rest = [] then Inr []
      else
        let pre = takeWhile (\<lambda>c. c \<noteq> CHR ''%'') rest;
            rest1 = dropWhile (\<lambda>c. c \<noteq> CHR ''%'') rest
        in if rest1 = [] then Inr pre
           else if take 1 (drop 1 rest1) = ''%'' then
             (case interpolate_some xf m opt depth (drop 2 rest1) of
                Inl e \<Rightarrow> Inl e
              | Inr out \<Rightarrow> Inr (pre @ ''%'' @ out))
           else if take 1 (drop 1 rest1) = ''('' then
             (let name = takeWhile (\<lambda>c. c \<noteq> CHR '')'') (drop 2 rest1);
                  after = dropWhile (\<lambda>c. c \<noteq> CHR '')'') (drop 2 rest1)
              in if name = [] \<or> take 2 after \<noteq> '')s''
                 then Inl (InterpolationSyntaxError opt)
                 else
                   (case m (xf name) of
                      None \<Rightarrow> Inl (InterpolationMissingOptionError opt (xf name))
                    | Some v \<Rightarrow>
                       (case (if CHR ''%'' \<in> set v
                              then interpolate_some xf m opt (depth + 1) v
                              else Inr v) of
                          Inl e \<Rightarrow> Inl e
                        | Inr out1 \<Rightarrow>
                           (case interpolate_some xf m opt depth (drop 2 after) of
                              Inl e \<Rightarrow> Inl e
                            | Inr out2 \<Rightarrow> Inr (pre @ out1 @ out2)))))
           else Inl (InterpolationSyntaxError opt))"
  by pat_completeness auto
termination
proof (relation "measures [\<lambda>(xf, m, opt, depth, rest). Suc MAX_INTERPOLATION_DEPTH - depth,
                           \<lambda>(xf, m, opt, depth, rest). length rest]", goal_cases)
  case 1
  then show ?case by simp
next
  case (2 xf m opt depth rest pre rest1)
  have "length rest1 \<le> length rest"
    unfolding 2(4) by (rule length_dropWhile_le)
  moreover from 2(5) have "length (drop 2 rest1) < length rest1"
    by (cases rest1) simp_all
  ultimately show ?case by simp
next
  case (3 xf m opt depth rest pre rest1 name after v)
  from 3(1) show ?case by auto
next
  case (4 xf m opt depth rest pre rest1 name after v out1)
  have "length rest1 \<le> length rest"
    unfolding 4(4) by (rule length_dropWhile_le)
  moreover have "length after \<le> length (drop 2 rest1)"
    unfolding 4(9) by (rule length_dropWhile_le)
  moreover from 4(10) have "after \<noteq> []" by auto
  then have "length (drop 2 after) < length after"
    by (cases after) simp_all
  ultimately show ?case by simp
qed

declare interpolate_some.simps [simp del]

text \<open>
  \<^verbatim>\<open>config[sec][key]\<close> for a section other than \<^verbatim>\<open>DEFAULT\<close> and a key in lower case
  (the literal keys of lines 83-87 are, so \<^verbatim>\<open>optionxform\<close> leaves them as they are).
  \<^verbatim>\<open>ConfigParser.__getitem__\<close> raises \<^verbatim>\<open>KeyError\<close> when the section is missing;
  \<^verbatim>\<open>SectionProxy.__getitem__\<close> raises \<^verbatim>\<open>KeyError\<close> when the key is neither in the
  section nor in \<^verbatim>\<open>DEFAULT\<close>, and otherwise returns \<^verbatim>\<open>parser.get(sec, key)\<close>: the
  section's value, else the one of \<^verbatim>\<open>DEFAULT\<close>, interpolated from depth 1.
\<close>

definition config_getitem :: "(string \<Rightarrow> string) \<Rightarrow> config \<Rightarrow> string \<Rightarrow> string \<Rightarrow> exn + string" where
  "config_getitem xf config sec key =
     (case cfg_sections config sec of
        None \<Rightarrow> Inl (KeyError sec)
      | Some sd \<Rightarrow>
         (case (cfg_defaults config ++ sd) key of
            None \<Rightarrow> Inl (KeyError key)
          | Some v \<Rightarrow> interpolate_some xf (cfg_defaults config ++ sd) key 1 v))"

text \<open>\<^verbatim>\<open>config[sec].get(key, fallback)\<close>: the fallback stands in for a key that is found
  nowhere, not for a value that fails to interpolate.\<close>

definition config_get ::
  "(string \<Rightarrow> string) \<Rightarrow> config \<Rightarrow> string \<Rightarrow> string \<Rightarrow> string \<Rightarrow> exn + string" where
  "config_get xf config sec key fallback =
     (case cfg_sections config sec of
        None \<Rightarrow> Inl (KeyError sec)
      | Some sd \<Rightarrow>
         (case (cfg_defaults config ++ sd) key of
            None \<Rightarrow> Inr fallback
          | Some v \<Rightarrow> interpolate_some xf (cfg_defaults config ++ sd) key 1 v))"

subsection \<open>The class\<close>

record RedditAuth =
  is_exe :: bool
  file_path :: string
  user_agent :: string
  client_id :: "string option"
  client_secret :: "string option"
  username :: "string option"
  password :: "string option"
  two_factor_code :: "string option"

text \<open>\<^verbatim>\<open>__init__\<close>, lines 27-34.\<close>

definition init :: "bool \<Rightarrow> string \<Rightarrow> string \<Rightarrow> RedditAuth" where
  "init exe path agent =
     \<lparr>is_exe = exe, file_path = path, user_agent = agent,
      client_id = None, client_secret = None, username = None, password = None,
      two_factor_code = None\<rparr>"

text \<open>A method that returns nothing yields the exception it raised (if any), the object
  as it left it, and its events.\<close>

type_synonym step = "exn option \<times> RedditAuth \<times> event list"

text \<open>\<^verbatim>\<open>_prompt_credentials_from_gui\<close>, lines 56-65. The assignments run in order, so a
  missing key leaves the earlier attributes assigned.\<close>

definition prompt_credentials_from_gui :: "env \<Rightarrow> RedditAuth \<Rightarrow> step" where
  "prompt_credentials_from_gui E self =
     (case gui_get_credentials E of
        Inl e \<Rightarrow> (Some e, self, [TkForm])
      | Inr credentials \<Rightarrow>
         (case credentials ''client id'' of
            None \<Rightarrow> (Some (KeyError ''client id''), self, [TkForm])
          | Some v1 \<Rightarrow>
         (case credentials ''client secret'' of
            None \<Rightarrow> (Some (KeyError ''client secret''),
                      self\<lparr>client_id := Some v1\<rparr>, [TkForm])
          | Some v2 \<Rightarrow>
         (case credentials ''username'' of
            None \<Rightarrow> (Some (KeyError ''username''),
                      self\<lparr>client_id := Some v1, client_secret := Some v2\<rparr>, [TkForm])
          | Some v3 \<Rightarrow>
         (case credentials ''password'' of
            None \<Rightarrow> (Some (KeyError ''password''),
                      self\<lparr>client_id := Some v1, client_secret := Some v2,
                           username := Some v3\<rparr>, [TkForm])
          | Some v4 \<Rightarrow>
             (None,
              self\<lparr>client_id := Some v1, client_secret := Some v2, username := Some v3,
                   password := Some v4,
                   two_factor_code :=
                     Some (case credentials ''two factor code'' of
                             None \<Rightarrow> ''None'' | Some v5 \<Rightarrow> v5)\<rparr>,
              [TkForm]))))))"

text \<open>\<^verbatim>\<open>_read_credentials_from_file\<close>, lines 77-87. Each line looks
  \<^verbatim>\<open>config["reddit"]\<close> up again and then the key, so the first line that fails decides
  the exception, and the attributes assigned by the lines before it stay assigned.\<close>

definition read_credentials_from_file :: "env \<Rightarrow> RedditAuth \<Rightarrow> step" where
  "read_credentials_from_file E self =
     (let p = file_path self in
      if \<not> path_exists E p then
        (Some (FileNotFoundError (''Credentials file not found: '' @ p)), self, [PathExists p])
      else
        (case config_read E p of
           ParseError m \<Rightarrow> (Some (ConfigParserError m), self, [PathExists p, ConfigRead p])
         | Parsed config \<Rightarrow>
        (case config_getitem (optionxform E) config ''reddit'' ''client_id'' of
           Inl e \<Rightarrow> (Some e, self, [PathExists p, ConfigRead p])
         | Inr v1 \<Rightarrow>
        (case config_getitem (optionxform E) config ''reddit'' ''client_secret'' of
           Inl e \<Rightarrow> (Some e, self\<lparr>client_id := Some v1\<rparr>, [PathExists p, ConfigRead p])
         | Inr v2 \<Rightarrow>
        (case config_getitem (optionxform E) config ''reddit'' ''username'' of
           Inl e \<Rightarrow> (Some e, self\<lparr>client_id := Some v1, client_secret := Some v2\<rparr>,
                     [PathExists p, ConfigRead p])
         | Inr v3 \<Rightarrow>
        (case config_getitem (optionxform E) config ''reddit'' ''password'' of
           Inl e \<Rightarrow> (Some e,
                     self\<lparr>client_id := Some v1, client_secret := Some v2,
                          username := Some v3\<rparr>,
                     [PathExists p, ConfigRead p])
         | Inr v4 \<Rightarrow>
        (case config_get (optionxform E) config ''reddit'' ''two_factor_code'' ''None'' of
           Inl e \<Rightarrow> (Some e,
                     self\<lparr>client_id := Some v1, client_secret := Some v2,
                          username := Some v3, password := Some v4\<rparr>,
                     [PathExists p, ConfigRead p])
         | Inr v5 \<Rightarrow>
            (None,
             self\<lparr>client_id := Some v1, client_secret := Some v2, username := Some v3,
                  password := Some v4, two_factor_code := Some v5\<rparr>,
             [PathExists p, ConfigRead p]))))))))"

text \<open>\<^verbatim>\<open>_read_credentials\<close>, lines 43-46.\<close>

definition read_credentials :: "env \<Rightarrow> RedditAuth \<Rightarrow> step" where
  "read_credentials E self =
     (if is_exe self then prompt_credentials_from_gui E self
      else read_credentials_from_file E self)"

subsection \<open>The entry point\<close>

text \<open>Line 106: \<^verbatim>\<open>all([self.client_id, self.client_secret, self.username, self.password])\<close>.\<close>

definition all_set :: "RedditAuth \<Rightarrow> bool" where
  "all_set self =
     (py_truthy (client_id self) \<and> py_truthy (client_secret self) \<and>
      py_truthy (username self) \<and> py_truthy (password self))"

text \<open>Lines 106-107: the credentials are read only when one of the four is unset.\<close>

definition resolve :: "env \<Rightarrow> RedditAuth \<Rightarrow> step" where
  "resolve E self = (if \<not> all_set self then read_credentials E self else (None, self, []))"

text \<open>Lines 112-113: the stored code loses its spaces, on the object.\<close>

definition clean_two_factor :: "RedditAuth \<Rightarrow> RedditAuth" where
  "clean_two_factor self =
     (if py_truthy (two_factor_code self)
      then self\<lparr>two_factor_code := map_option py_replace_space (two_factor_code self)\<rparr>
      else self)"

text \<open>Lines 116-118: the password handed to the constructor.\<close>

definition combined_password :: "RedditAuth \<Rightarrow> string option" where
  "combined_password self =
     (case two_factor_code self of
        None \<Rightarrow> password self
      | Some code \<Rightarrow>
          if code \<noteq> [] \<and> py_lower code \<noteq> ''none''
          then Some (py_format (password self) @ '':'' @ code)
          else password self)"

text \<open>Lines 120-126.\<close>

definition reddit_args :: "RedditAuth \<Rightarrow> ctor_args" where
  "reddit_args self =
     \<lparr>arg_client_id = client_id self, arg_client_secret = client_secret self,
      arg_username = username self, arg_password = combined_password self,
      arg_user_agent = user_agent self\<rparr>"

text \<open>The body of the \<^verbatim>\<open>try\<close>, lines 106-129: the session, or the exception that left
  the block.\<close>

definition try_body :: "env \<Rightarrow> RedditAuth \<Rightarrow> (exn + session) \<times> RedditAuth \<times> event list" where
  "try_body E self =
     (case resolve E self of
        (Some e, s1, tr) \<Rightarrow> (Inl e, s1, tr)
      | (None, s1, tr) \<Rightarrow>
          (let tr1 = tr @ [Print ''Retrieving Reddit Authentication instance...''];
               s2 = clean_two_factor s1;
               args = reddit_args s2
           in case praw_Reddit E args of
                Some e \<Rightarrow> (Inl e, s2, tr1 @ [PrawReddit args])
              | None \<Rightarrow>
                 (case user_me E args of
                    Some e \<Rightarrow> (Inl e, s2, tr1 @ [PrawReddit args, UserMe args])
                  | None \<Rightarrow>
                      (Inr (Session args), s2,
                       tr1 @ [PrawReddit args, UserMe args,
                              Print ''Successfully authenticated.'']))))"

text \<open>The text printed by the first handler, lines 131-136.\<close>

definition remediation :: "string \<Rightarrow> string" where
  "remediation path =
     ''Please create a file named '' @ [CHR 0x27] @ path @ [CHR 0x27] @
     '' in the same directory as main.py with the following format:'' @ [CHR 0x0A] @
     ''[reddit]'' @ [CHR 0x0A] @
     ''client_id = YOUR-CLIENT-ID'' @ [CHR 0x0A] @
     ''client_secret = YOUR-CLIENT-SECRET'' @ [CHR 0x0A] @
     ''username = YOUR-USERNAME'' @ [CHR 0x0A] @
     ''password = YOUR-PASSWORD'' @ [CHR 0x0A] @
     ''# Leave as None if you don'' @ [CHR 0x27] @ ''t use two-factor authentication'' @
     [CHR 0x0A] @
     ''two_factor_code = None''"

text \<open>How a call of the entry point ends: it returns the session, \<^verbatim>\<open>sys.exit(n)\<close>
  ends the process, or an exception no handler names leaves the function.\<close>

datatype outcome = Returned session | SystemExit int | Raised exn

record run =
  result :: outcome
  obj :: RedditAuth
  events :: "event list"

text \<open>\<^verbatim>\<open>get_reddit_instance\<close>, lines 105-141.\<close>

definition get_reddit_instance :: "env \<Rightarrow> RedditAuth \<Rightarrow> run" where
  "get_reddit_instance E self =
     (case try_body E self of
        (Inr reddit, s, tr) \<Rightarrow> \<lparr>result = Returned reddit, obj = s, events = tr\<rparr>
      | (Inl e, s, tr) \<Rightarrow>
          (case e of
             FileNotFoundError m \<Rightarrow>
               \<lparr>result = SystemExit 1, obj = s,
                events = tr @ [Print (remediation (file_path s))]\<rparr>
           | OAuthException m \<Rightarrow>
               \<lparr>result = SystemExit 1, obj = s,
                events = tr @ [Print ''Failed to authenticate with Reddit. Please check your credentials.'',
                               Print (''Error details: '' @ m)]\<rparr>
           | ResponseException m \<Rightarrow>
               \<lparr>result = SystemExit 1, obj = s,
                events = tr @ [Print ''Failed to authenticate with Reddit. Please check your credentials.'',
                               Print (''Error details: '' @ m)]\<rparr>
           | _ \<Rightarrow> \<lparr>result = Raised e, obj = s, events = tr\<rparr>))"

subsection \<open>Reading a run\<close>

text \<open>The arguments of every constructor call, the number of verification calls and the
  printed lines of a run.\<close>

fun constructor_calls :: "event list \<Rightarrow> ctor_args list" where
  "constructor_calls [] = []"
| "constructor_calls (PrawReddit a # tr) = a # constructor_calls tr"
| "constructor_calls (_ # tr) = constructor_calls tr"

fun verification_calls :: "event list \<Rightarrow> ctor_args list" where
  "verification_calls [] = []"
| "verification_calls (UserMe a # tr) = a # verification_calls tr"
| "verification_calls (_ # tr) = verification_calls tr"

fun printed :: "event list \<Rightarrow> string list" where
  "printed [] = []"
| "printed (Print s # tr) = s # printed tr"
| "printed (_ # tr) = printed tr"

subsection \<open>The merge rule in the specification's words\<close>

text \<open>
  Section 4.1 of the specification: strip all whitespace from the second-factor value; if
  the rest is empty or case-insensitively equal to \<^verbatim>\<open>none\<close>, use the password
  unmodified; otherwise concatenate password and code with a colon. Whitespace is what
  Python's \<^verbatim>\<open>str.isspace\<close> accepts among the ASCII characters.
\<close>

definition spec_whitespace :: "char list" where
  "spec_whitespace = [CHR '' '', CHR 0x09, CHR 0x0A, CHR 0x0B, CHR 0x0C, CHR 0x0D]"

definition spec_strip_whitespace :: "string \<Rightarrow> string" where
  "spec_strip_whitespace s = filter (\<lambda>c. c \<notin> set spec_whitespace) s"

definition spec_merge :: "string \<Rightarrow> string \<Rightarrow> string" where
  "spec_merge pw factor =
     (let code = spec_strip_whitespace factor
      in if code = [] \<or> py_lower code = ''none'' then pw else pw @ '':'' @ code)"

subsection \<open>Which source a run consulted\<close>

datatype source = Interactive | FileBacked

fun sources_used :: "event list \<Rightarrow> source set" where
  "sources_used [] = {}"
| "sources_used (TkForm # tr) = insert Interactive (sources_used tr)"
| "sources_used (PathExists p # tr) = insert FileBacked (sources_used tr)"
| "sources_used (ConfigRead p # tr) = insert FileBacked (sources_used tr)"
| "sources_used (_ # tr) = sources_used tr"


subsection \<open>Concrete runs\<close>

text \<open>An object whose four credentials were assigned before the call, with a given
  two-factor code.\<close>

definition preset :: "string \<Rightarrow> RedditAuth" where
  "preset code =
     (init False ''reddit_credentials.ini'' ''ereddicator'')
       \<lparr>client_id := Some ''id'', client_secret := Some ''secret'',
        username := Some ''user'', password := Some ''hunter2'',
        two_factor_code := Some code\<rparr>"

text \<open>No credentials file, no display; the service accepts every login.\<close>

definition accepting_env :: env where
  "accepting_env =
     \<lparr>gui_get_credentials = Inl (OtherError ''no display''),
      path_exists = (\<lambda>p. False),
      config_read = (\<lambda>p. Parsed \<lparr>cfg_defaults = Map.empty, cfg_sections = Map.empty\<rparr>),
      optionxform = py_lower,
      praw_Reddit = (\<lambda>a. None),
      user_me = (\<lambda>a. None)\<rparr>"

text \<open>The service refuses the login.\<close>

definition rejecting_env :: env where
  "rejecting_env = accepting_env\<lparr>user_me := (\<lambda>a. Some (OAuthException ''invalid_grant''))\<rparr>"

text \<open>A credentials file with the given \<^verbatim>\<open>DEFAULT\<close> and \<^verbatim>\<open>reddit\<close> sections.\<close>

definition ini :: "(string \<rightharpoonup> string) \<Rightarrow> (string \<rightharpoonup> string) \<Rightarrow> config" where
  "ini dflt sec = \<lparr>cfg_defaults = dflt, cfg_sections = [''reddit'' \<mapsto> sec]\<rparr>"

definition file_env_with :: "(string \<rightharpoonup> string) \<Rightarrow> (string \<rightharpoonup> string) \<Rightarrow> env" where
  "file_env_with dflt sec =
     accepting_env\<lparr>path_exists := (\<lambda>p. p = ''reddit_credentials.ini''),
                   config_read := (\<lambda>p. Parsed (ini dflt sec))\<rparr>"

text \<open>The same with no \<^verbatim>\<open>DEFAULT\<close> section.\<close>

definition file_env :: "(string \<rightharpoonup> string) \<Rightarrow> env" where
  "file_env sec = file_env_with Map.empty sec"

text \<open>A form that was submitted with the given fields.\<close>

definition form_env :: "(string \<rightharpoonup> string) \<Rightarrow> env" where
  "form_env form = accepting_env\<lparr>gui_get_credentials := Inr form\<rparr>"

definition four_keys :: "string \<rightharpoonup> string" where
  "four_keys = [''client_id'' \<mapsto> ''id'', ''client_secret'' \<mapsto> ''secret'',
                ''username'' \<mapsto> ''user'', ''password'' \<mapsto> ''hunter2'']"

definition four_fields :: "string \<rightharpoonup> string" where
  "four_fields = [''client id'' \<mapsto> ''id'', ''client secret'' \<mapsto> ''secret'',
                  ''username'' \<mapsto> ''user'', ''password'' \<mapsto> ''hunter2'']"

text \<open>The line \<^verbatim>\<open>password =\<close> with nothing after the sign.\<close>

definition empty_password_keys :: "string \<rightharpoonup> string" where
  "empty_password_keys = four_keys(''password'' \<mapsto> [])"

text \<open>The line \<^verbatim>\<open>password = p%ss\<close>.\<close>

definition percent_password_keys :: "string \<rightharpoonup> string" where
  "percent_password_keys = four_keys(''password'' \<mapsto> ''p%ss'')"

text \<open>A \<^verbatim>\<open>DEFAULT\<close> section with the line \<^verbatim>\<open>two_factor_code = 123456\<close>, and one
  with the line \<^verbatim>\<open>password = hunter2\<close>.\<close>

definition default_code :: "string \<rightharpoonup> string" where
  "default_code = [''two_factor_code'' \<mapsto> ''123456'']"



text \<open>A file and a form that are both there, with different credentials.\<close>

definition file_keys :: "string \<rightharpoonup> string" where
  "file_keys = [''client_id'' \<mapsto> ''file-id'', ''client_secret'' \<mapsto> ''file-secret'',
                ''username'' \<mapsto> ''file-user'', ''password'' \<mapsto> ''file-pw'']"

definition form_fields :: "string \<rightharpoonup> string" where
  "form_fields = [''client id'' \<mapsto> ''form-id'', ''client secret'' \<mapsto> ''form-secret'',
                  ''username'' \<mapsto> ''form-user'', ''password'' \<mapsto> ''form-pw'']"

definition both_env :: env where
  "both_env = (file_env file_keys)\<lparr>gui_get_credentials := Inr form_fields\<rparr>"


text \<open>What "the four required fields are non-empty" and "are present" say of the
  arguments of a constructor call.\<close>

definition required_nonempty :: "ctor_args \<Rightarrow> bool" where
  "required_nonempty a =
     (py_truthy (arg_client_id a) \<and> py_truthy (arg_client_secret a) \<and>
      py_truthy (arg_username a) \<and> py_truthy (arg_password a))"

definition required_present :: "ctor_args \<Rightarrow> bool" where
  "required_present a =
     (arg_client_id a \<noteq> None \<and> arg_client_secret a \<noteq> None \<and>
      arg_username a \<noteq> None \<and> arg_password a \<noteq> None)"

text \<open>The exceptions of the \<^verbatim>\<open>configparser\<close> module (subclasses of its
  \<^verbatim>\<open>Error\<close>), and the exceptions the two \<^verbatim>\<open>except\<close> clauses of lines 130 and 138
  name.\<close>

fun is_configparser_error :: "exn \<Rightarrow> bool" where
  "is_configparser_error (ConfigParserError _) = True"
| "is_configparser_error (InterpolationSyntaxError _) = True"
| "is_configparser_error (InterpolationMissingOptionError _ _) = True"
| "is_configparser_error (InterpolationDepthError _) = True"
| "is_configparser_error _ = False"

fun is_handled :: "exn \<Rightarrow> bool" where
  "is_handled (FileNotFoundError _) = True"
| "is_handled (OAuthException _) = True"
| "is_handled (ResponseException _) = True"
| "is_handled _ = False"

section \<open>Properties\<close>

lemmas py_defs =
  py_truthy_def py_replace_space_def py_lower_def lower_char_def ascii_upper_def
  ascii_lower_def py_format_def

lemmas run_defs = preset_def init_def all_set_def resolve_def

subsection \<open>Events of the parts\<close>

lemma constructor_calls_append [simp]:
  "constructor_calls (xs @ ys) = constructor_calls xs @ constructor_calls ys"
  by (induction xs rule: constructor_calls.induct) simp_all

lemma verification_calls_append [simp]:
  "verification_calls (xs @ ys) = verification_calls xs @ verification_calls ys"
  by (induction xs rule: verification_calls.induct) simp_all

lemma printed_append [simp]: "printed (xs @ ys) = printed xs @ printed ys"
  by (induction xs rule: printed.induct) simp_all

lemma sources_used_append [simp]:
  "sources_used (xs @ ys) = sources_used xs \<union> sources_used ys"
  by (induction xs rule: sources_used.induct) auto

lemma prompt_events:
  "prompt_credentials_from_gui E self = (r, s, tr) \<Longrightarrow> tr = [TkForm]"
  by (auto simp: prompt_credentials_from_gui_def split: sum.splits option.splits)

lemma read_file_events:
  "read_credentials_from_file E self = (r, s, tr) \<Longrightarrow>
     tr = [PathExists (file_path self)] \<or>
     tr = [PathExists (file_path self), ConfigRead (file_path self)]"
  by (auto simp: read_credentials_from_file_def Let_def
           split: if_splits read_result.splits sum.splits)

lemma resolve_quiet:
  assumes "resolve E self = (r, s, tr)"
  shows "constructor_calls tr = []" and "verification_calls tr = []" and "printed tr = []"
  using assms prompt_events [of E self r s tr] read_file_events [of E self r s tr]
  by (auto simp: resolve_def read_credentials_def split: if_splits)

text \<open>Once the credentials are resolved, the rest of the \<^verbatim>\<open>try\<close> block is three
  cases on what the constructor and the verification call do.\<close>

lemma try_body_resolved:
  assumes "resolve E self = (None, s, tr)"
  shows "try_body E self =
     (let s2 = clean_two_factor s; args = reddit_args s2;
          tr1 = tr @ [Print ''Retrieving Reddit Authentication instance...'']
      in case praw_Reddit E args of
           Some e \<Rightarrow> (Inl e, s2, tr1 @ [PrawReddit args])
         | None \<Rightarrow>
            (case user_me E args of
               Some e \<Rightarrow> (Inl e, s2, tr1 @ [PrawReddit args, UserMe args])
             | None \<Rightarrow> (Inr (Session args), s2,
                         tr1 @ [PrawReddit args, UserMe args,
                                Print ''Successfully authenticated.''])))"
  using assms by (simp add: try_body_def Let_def)

lemma try_body_failed:
  assumes "resolve E self = (Some e, s, tr)"
  shows "try_body E self = (Inl e, s, tr)"
  using assms by (simp add: try_body_def)

text \<open>A handler adds printed lines and nothing else.\<close>

lemma handler_keeps_calls:
  "constructor_calls (events (get_reddit_instance E self)) =
     constructor_calls (snd (snd (try_body E self)))"
  "verification_calls (events (get_reddit_instance E self)) =
     verification_calls (snd (snd (try_body E self)))"
  "obj (get_reddit_instance E self) = fst (snd (try_body E self))"
  by (auto simp: get_reddit_instance_def split: prod.splits sum.splits exn.splits)

lemma resolved_calls:
  assumes "resolve E self = (None, s, tr)"
  shows "constructor_calls (events (get_reddit_instance E self)) =
           [reddit_args (clean_two_factor s)]"
    and "obj (get_reddit_instance E self) = clean_two_factor s"
  using resolve_quiet [OF assms]
  by (auto simp: handler_keeps_calls try_body_resolved [OF assms] Let_def split: option.splits)

lemma resolve_preset: "all_set self \<Longrightarrow> resolve E self = (None, self, [])"
  by (simp add: resolve_def)

lemma preset_all_set: "all_set (preset c)"
  by (simp add: all_set_def preset_def init_def py_truthy_def)

lemma preset_calls:
  "constructor_calls (events (get_reddit_instance E (preset c))) =
     [reddit_args (clean_two_factor (preset c))]"
  by (rule resolved_calls(1) [OF resolve_preset [OF preset_all_set]])

subsection \<open>The two-factor merge\<close>

lemma replace_space_idem [simp]: "py_replace_space (py_replace_space t) = py_replace_space t"
  by (simp add: py_replace_space_def)

lemma clean_two_factor_fields [simp]:
  "password (clean_two_factor s) = password s"
  "client_id (clean_two_factor s) = client_id s"
  "client_secret (clean_two_factor s) = client_secret s"
  "username (clean_two_factor s) = username s"
  "user_agent (clean_two_factor s) = user_agent s"
  "file_path (clean_two_factor s) = file_path s"
  "is_exe (clean_two_factor s) = is_exe s"
  by (simp_all add: clean_two_factor_def)

lemma clean_two_factor_code:
  "two_factor_code s = Some t \<Longrightarrow>
     two_factor_code (clean_two_factor s) = Some (py_replace_space t)"
  by (cases "t = []") (simp_all add: clean_two_factor_def py_truthy_def py_replace_space_def)

lemma clean_two_factor_none:
  "two_factor_code s = None \<Longrightarrow> clean_two_factor s = s"
  by (simp add: clean_two_factor_def py_truthy_def)

text \<open>
  C1, as the code has it: the characters removed are the spaces (U+0020), not all
  whitespace. For every bundle whose two-factor value, once its spaces are removed, is
  non-empty and not case-insensitively \<^verbatim>\<open>none\<close>, the one constructor call of the run
  gets the password, a colon and the code without its spaces; the code is cleaned on the
  object first, and the stored password stays as it was, so nothing is appended twice.
\<close>

theorem two_factor_merge:
  assumes "resolve E self = (None, s, tr)"
    and "password s = Some p"
    and "two_factor_code s = Some t"
    and "py_replace_space t \<noteq> []"
    and "py_lower (py_replace_space t) \<noteq> ''none''"
  shows "map arg_password (constructor_calls (events (get_reddit_instance E self))) =
           [Some (p @ '':'' @ py_replace_space t)]
       \<and> two_factor_code (obj (get_reddit_instance E self)) = Some (py_replace_space t)
       \<and> password (obj (get_reddit_instance E self)) = Some p"
  using assms(2-5)
  by (simp add: resolved_calls [OF assms(1)] clean_two_factor_code reddit_args_def
        combined_password_def py_format_def)

theorem two_factor_merge_witness:
  "map arg_password
     (constructor_calls (events (get_reddit_instance accepting_env (preset '' 123 456 '')))) =
     [Some ''hunter2:123456'']"
proof -
  have r: "resolve accepting_env (preset '' 123 456 '') = (None, preset '' 123 456 '', [])"
    by (simp add: run_defs py_defs)
  have p: "password (preset '' 123 456 '') = Some ''hunter2''"
    and t: "two_factor_code (preset '' 123 456 '') = Some '' 123 456 ''"
    by (simp_all add: preset_def)
  have n: "py_replace_space '' 123 456 '' \<noteq> []"
    and l: "py_lower (py_replace_space '' 123 456 '') \<noteq> ''none''"
    by (simp_all add: py_defs)
  show ?thesis
    using two_factor_merge [OF r p t n l] by (simp add: py_replace_space_def)
qed

text \<open>C1 as the specification states it fails on a code with a tab inside: the
  specification's rule gives \<^verbatim>\<open>hunter2:1234\<close>, the constructor receives the tab.\<close>

theorem strip_all_whitespace_counterexample:
  "spec_merge ''hunter2'' (''12'' @ [CHR 0x09] @ ''34'') = ''hunter2:1234''
   \<and> map arg_password
       (constructor_calls
         (events (get_reddit_instance accepting_env (preset (''12'' @ [CHR 0x09] @ ''34''))))) =
     [Some (''hunter2:12'' @ [CHR 0x09] @ ''34'')]
   \<and> ''hunter2:12'' @ [CHR 0x09] @ ''34'' \<noteq> ''hunter2:1234''"
proof -
  have "spec_merge ''hunter2'' (''12'' @ [CHR 0x09] @ ''34'') = ''hunter2:1234''"
    by (simp add: spec_merge_def spec_strip_whitespace_def spec_whitespace_def py_defs)
  moreover have "map arg_password
       (constructor_calls
         (events (get_reddit_instance accepting_env (preset (''12'' @ [CHR 0x09] @ ''34''))))) =
     [Some (''hunter2:12'' @ [CHR 0x09] @ ''34'')]"
    unfolding preset_calls
    by (simp add: reddit_args_def combined_password_def clean_two_factor_def preset_def
          init_def py_defs)
  ultimately show ?thesis by simp
qed

text \<open>
  C2, as the code has it: a two-factor value that is empty, consists of spaces only, or is
  case-insensitively \<^verbatim>\<open>none\<close> once its spaces are removed leaves the password as it
  is: the one constructor call of the run gets the bundle's password field.
\<close>

theorem no_second_factor_keeps_password:
  assumes "resolve E self = (None, s, tr)"
    and "two_factor_code s = Some t"
    and "py_replace_space t = [] \<or> py_lower (py_replace_space t) = ''none''"
  shows "map arg_password (constructor_calls (events (get_reddit_instance E self))) =
           [password s]"
  using assms(2-3)
  by (auto simp: resolved_calls [OF assms(1)] clean_two_factor_code reddit_args_def
        combined_password_def)

theorem no_second_factor_keeps_password_witness:
  "map arg_password
     (constructor_calls (events (get_reddit_instance accepting_env (preset '' nOnE '')))) =
     [Some ''hunter2'']"
proof -
  have r: "resolve accepting_env (preset '' nOnE '') = (None, preset '' nOnE '', [])"
    by (simp add: run_defs py_defs)
  have t: "two_factor_code (preset '' nOnE '') = Some '' nOnE ''"
    by (simp add: preset_def)
  have n: "py_replace_space '' nOnE '' = [] \<or> py_lower (py_replace_space '' nOnE '') = ''none''"
    by (simp add: py_defs)
  show ?thesis
    using no_second_factor_keeps_password [OF r t n] by (simp add: preset_def)
qed

text \<open>C2 as the specification states it fails on a whitespace-only code that is a tab:
  the specification's rule keeps \<^verbatim>\<open>hunter2\<close>, the constructor receives the password,
  a colon and the tab.\<close>

theorem whitespace_only_counterexample:
  "spec_strip_whitespace [CHR 0x09] = []
   \<and> spec_merge ''hunter2'' [CHR 0x09] = ''hunter2''
   \<and> map arg_password
       (constructor_calls (events (get_reddit_instance accepting_env (preset [CHR 0x09])))) =
     [Some (''hunter2:'' @ [CHR 0x09])]
   \<and> ''hunter2:'' @ [CHR 0x09] \<noteq> ''hunter2''"
proof -
  have "spec_strip_whitespace [CHR 0x09] = []"
    by (simp add: spec_strip_whitespace_def spec_whitespace_def)
  moreover have "spec_merge ''hunter2'' [CHR 0x09] = ''hunter2''"
    by (simp add: spec_merge_def spec_strip_whitespace_def spec_whitespace_def)
  moreover have "map arg_password
       (constructor_calls (events (get_reddit_instance accepting_env (preset [CHR 0x09])))) =
     [Some (''hunter2:'' @ [CHR 0x09])]"
    unfolding preset_calls
    by (simp add: reddit_args_def combined_password_def clean_two_factor_def preset_def
          init_def py_defs)
  ultimately show ?thesis by simp
qed

subsection \<open>The two handlers\<close>

lemma remediation_keys:
  "sublist ''client_id'' (remediation p)"
  "sublist ''client_secret'' (remediation p)"
  "sublist ''username'' (remediation p)"
  "sublist ''password'' (remediation p)"
  "sublist ''two_factor_code'' (remediation p)"
  by (simp_all add: remediation_def sublist_Cons_right sublist_append)

lemma missing_file_resolve:
  assumes "\<not> all_set self" and "\<not> is_exe self" and "\<not> path_exists E (file_path self)"
  shows "resolve E self =
     (Some (FileNotFoundError (''Credentials file not found: '' @ file_path self)), self,
      [PathExists (file_path self)])"
  using assms
  by (simp add: resolve_def read_credentials_def read_credentials_from_file_def Let_def)

lemma missing_file_run:
  assumes "\<not> all_set self" and "\<not> is_exe self" and "\<not> path_exists E (file_path self)"
  shows "get_reddit_instance E self =
     \<lparr>result = SystemExit 1, obj = self,
      events = [PathExists (file_path self), Print (remediation (file_path self))]\<rparr>"
  by (simp add: get_reddit_instance_def try_body_failed [OF missing_file_resolve [OF assms]])

text \<open>
  C3: when the file-backed source is selected (the four credentials are not all set and
  \<open>is_exe\<close> is off) and the credentials file does not exist, the run ends with
  \<^verbatim>\<open>sys.exit(1)\<close>; the only text printed is the remediation, which contains the five
  keys; no session is constructed, none is returned.
\<close>

theorem missing_file_exits_1:
  assumes "\<not> all_set self" and "\<not> is_exe self" and "\<not> path_exists E (file_path self)"
  shows "result (get_reddit_instance E self) = SystemExit 1
       \<and> printed (events (get_reddit_instance E self)) = [remediation (file_path self)]
       \<and> list_all (\<lambda>k. sublist k (remediation (file_path self)))
            [''client_id'', ''client_secret'', ''username'', ''password'', ''two_factor_code'']
       \<and> constructor_calls (events (get_reddit_instance E self)) = []"
  by (simp add: missing_file_run [OF assms] remediation_keys)

theorem missing_file_exits_1_witness:
  "result (get_reddit_instance accepting_env
             (init False ''reddit_credentials.ini'' ''ereddicator'')) = SystemExit 1
   \<and> constructor_calls (events (get_reddit_instance accepting_env
             (init False ''reddit_credentials.ini'' ''ereddicator''))) = []"
proof -
  have a: "\<not> all_set (init False ''reddit_credentials.ini'' ''ereddicator'')"
    by (simp add: all_set_def init_def py_truthy_def)
  have b: "\<not> is_exe (init False ''reddit_credentials.ini'' ''ereddicator'')"
    by (simp add: init_def)
  have c: "\<not> path_exists accepting_env
               (file_path (init False ''reddit_credentials.ini'' ''ereddicator''))"
    by (simp add: accepting_env_def)
  show ?thesis
    using missing_file_exits_1 [OF a b c] by simp
qed

lemma rejected_run:
  assumes "resolve E self = (None, s, tr)"
    and "praw_Reddit E (reddit_args (clean_two_factor s)) = None"
    and "user_me E (reddit_args (clean_two_factor s)) = Some e"
    and "e = OAuthException m \<or> e = ResponseException m"
  shows "get_reddit_instance E self =
     \<lparr>result = SystemExit 1, obj = clean_two_factor s,
      events = tr @ [Print ''Retrieving Reddit Authentication instance...'',
                     PrawReddit (reddit_args (clean_two_factor s)),
                     UserMe (reddit_args (clean_two_factor s)),
                     Print ''Failed to authenticate with Reddit. Please check your credentials.'',
                     Print (''Error details: '' @ m)]\<rparr>"
  using assms(2-4)
  by (auto simp: get_reddit_instance_def try_body_resolved [OF assms(1)] Let_def)

text \<open>
  C4: when the constructor returns and the verification call raises an
  \<^verbatim>\<open>OAuthException\<close> or a \<^verbatim>\<open>ResponseException\<close> with text \<open>m\<close>, the run prints
  the progress line, the credential-check message and the error text, and ends with
  \<^verbatim>\<open>sys.exit(1)\<close>, so no session is returned; the constructor and the verification were
  each called once, so nothing was retried.
\<close>

theorem rejected_login_exits_1:
  assumes "resolve E self = (None, s, tr)"
    and "praw_Reddit E (reddit_args (clean_two_factor s)) = None"
    and "user_me E (reddit_args (clean_two_factor s)) = Some e"
    and "e = OAuthException m \<or> e = ResponseException m"
  shows "result (get_reddit_instance E self) = SystemExit 1
       \<and> printed (events (get_reddit_instance E self)) =
           [''Retrieving Reddit Authentication instance...'',
            ''Failed to authenticate with Reddit. Please check your credentials.'',
            ''Error details: '' @ m]
       \<and> length (constructor_calls (events (get_reddit_instance E self))) = 1
       \<and> length (verification_calls (events (get_reddit_instance E self))) = 1"
  using resolve_quiet [OF assms(1)] by (simp add: rejected_run [OF assms])

theorem rejected_login_exits_1_witness:
  "result (get_reddit_instance rejecting_env (preset ''None'')) = SystemExit 1
   \<and> printed (events (get_reddit_instance rejecting_env (preset ''None''))) =
       [''Retrieving Reddit Authentication instance...'',
        ''Failed to authenticate with Reddit. Please check your credentials.'',
        ''Error details: invalid_grant'']"
proof -
  have r: "resolve rejecting_env (preset ''None'') = (None, preset ''None'', [])"
    by (rule resolve_preset [OF preset_all_set])
  have c: "praw_Reddit rejecting_env (reddit_args (clean_two_factor (preset ''None''))) = None"
    by (simp add: rejecting_env_def accepting_env_def)
  have u: "user_me rejecting_env (reddit_args (clean_two_factor (preset ''None''))) =
             Some (OAuthException ''invalid_grant'')"
    by (simp add: rejecting_env_def accepting_env_def)
  have k: "OAuthException ''invalid_grant'' = OAuthException ''invalid_grant'' \<or>
           OAuthException ''invalid_grant'' = ResponseException ''invalid_grant''"
    by simp
  show ?thesis
    using rejected_login_exits_1 [OF r c u k] by simp
qed

subsection \<open>Lookups\<close>


lemma interpolate_errors:
  "interpolate_some xf m opt depth rest = Inl e \<Longrightarrow> is_configparser_error e"
proof (induction xf m opt depth rest arbitrary: e rule: interpolate_some.induct)
  case (1 xf m opt depth rest)
  define pre where "pre = takeWhile (\<lambda>c. c \<noteq> CHR ''%'') rest"
  define rest1 where "rest1 = dropWhile (\<lambda>c. c \<noteq> CHR ''%'') rest"
  define name where "name = takeWhile (\<lambda>c. c \<noteq> CHR '')'') (drop 2 rest1)"
  define after where "after = dropWhile (\<lambda>c. c \<noteq> CHR '')'') (drop 2 rest1)"
  note unfolded = interpolate_some.simps [of xf m opt depth rest, unfolded Let_def,
      folded pre_def rest1_def, folded name_def after_def]
  show ?case
  proof (cases "MAX_INTERPOLATION_DEPTH < depth")
    case True
    with "1.prems" show ?thesis by (auto simp: unfolded)
  next
    case d: False
    show ?thesis
    proof (cases "rest = [] \<or> rest1 = []")
      case True
      with "1.prems" d show ?thesis by (auto simp: unfolded split: if_splits)
    next
      case False
      then have r: "rest \<noteq> []" and r1: "rest1 \<noteq> []" by simp_all
      show ?thesis
      proof (cases "take 1 (drop 1 rest1) = ''%''")
        case pct: True
        from "1.prems" d r r1 pct
        have "interpolate_some xf m opt depth (drop 2 rest1) = Inl e"
          by (simp add: unfolded split: sum.splits)
        then show ?thesis
          by (rule "1.IH"(1) [OF d r pre_def rest1_def r1 pct])
      next
        case npct: False
        show ?thesis
        proof (cases "take 1 (drop 1 rest1) = ''(''")
          case False
          with "1.prems" d r r1 npct show ?thesis by (auto simp: unfolded)
        next
          case par: True
          show ?thesis
          proof (cases "name = [] \<or> take 2 after \<noteq> '')s''")
            case True
            with "1.prems" d r r1 npct par show ?thesis by (auto simp: unfolded)
          next
            case ok: False
            show ?thesis
            proof (cases "m (xf name)")
              case None
              with "1.prems" d r r1 npct par ok show ?thesis by (auto simp: unfolded)
            next
              case (Some v)
              let ?inner = "if CHR ''%'' \<in> set v
                            then interpolate_some xf m opt (depth + 1) v else Inr v"
              show ?thesis
              proof (cases ?inner)
                case (Inl e')
                with "1.prems" d r r1 npct par ok Some have e: "e' = e"
                  by (simp add: unfolded)
                from Inl have p: "CHR ''%'' \<in> set v"
                  by (simp split: if_splits)
                with Inl e have "interpolate_some xf m opt (depth + 1) v = Inl e"
                  by simp
                then show ?thesis
                  by (rule "1.IH"(2) [OF d r pre_def rest1_def r1 npct par name_def after_def
                        ok Some p])
              next
                case (Inr out1)
                with "1.prems" d r r1 npct par ok Some
                have "interpolate_some xf m opt depth (drop 2 after) = Inl e"
                  by (simp add: unfolded split: sum.splits)
                then show ?thesis
                  by (rule "1.IH"(3) [OF d r pre_def rest1_def r1 npct par name_def after_def
                        ok Some Inr])
              qed
            qed
          qed
        qed
      qed
    qed
  qed
qed





lemma get_errors:
  assumes "config_get xf c sec k fb = Inl e"
  shows "e = KeyError sec \<or> is_configparser_error e"
  using assms
  by (auto simp: config_get_def split: option.splits dest: interpolate_errors)

lemma get_absent:
  assumes "cfg_sections c sec = Some sd" and "sd k = None" and "cfg_defaults c k = None"
  shows "config_get xf c sec k fb = Inr fb"
  using assms by (simp add: config_get_def map_add_def)

text \<open>Evaluating a lookup in a concrete file.\<close>

lemmas lookup_defs =
  config_getitem_def config_get_def interpolate_some.simps MAX_INTERPOLATION_DEPTH_def
  map_add_def ini_def

subsection \<open>The two sources\<close>

lemma file_complete:
  assumes "path_exists E (file_path self)"
    and "config_read E (file_path self) = Parsed c"
    and "config_getitem (optionxform E) c ''reddit'' ''client_id'' = Inr a"
    and "config_getitem (optionxform E) c ''reddit'' ''client_secret'' = Inr b"
    and "config_getitem (optionxform E) c ''reddit'' ''username'' = Inr u"
    and "config_getitem (optionxform E) c ''reddit'' ''password'' = Inr p"
    and "config_get (optionxform E) c ''reddit'' ''two_factor_code'' ''None'' = Inr t"
  shows "read_credentials_from_file E self =
     (None,
      self\<lparr>client_id := Some a, client_secret := Some b, username := Some u,
           password := Some p, two_factor_code := Some t\<rparr>,
      [PathExists (file_path self), ConfigRead (file_path self)])"
  using assms by (simp add: read_credentials_from_file_def Let_def)

lemma file_success:
  assumes "read_credentials_from_file E self = (None, s, tr)"
  shows "\<exists>c a b u p t. config_read E (file_path self) = Parsed c
      \<and> config_getitem (optionxform E) c ''reddit'' ''client_id'' = Inr a
      \<and> config_getitem (optionxform E) c ''reddit'' ''client_secret'' = Inr b
      \<and> config_getitem (optionxform E) c ''reddit'' ''username'' = Inr u
      \<and> config_getitem (optionxform E) c ''reddit'' ''password'' = Inr p
      \<and> config_get (optionxform E) c ''reddit'' ''two_factor_code'' ''None'' = Inr t
      \<and> s = self\<lparr>client_id := Some a, client_secret := Some b, username := Some u,
                  password := Some p, two_factor_code := Some t\<rparr>"
  using assms
  by (auto simp: read_credentials_from_file_def Let_def
           split: if_splits read_result.splits sum.splits)

lemma form_complete:
  assumes "gui_get_credentials E = Inr d"
    and "d ''client id'' = Some a" and "d ''client secret'' = Some b"
    and "d ''username'' = Some u" and "d ''password'' = Some p"
  shows "prompt_credentials_from_gui E self =
     (None,
      self\<lparr>client_id := Some a, client_secret := Some b, username := Some u,
           password := Some p,
           two_factor_code :=
             Some (case d ''two factor code'' of None \<Rightarrow> ''None'' | Some v \<Rightarrow> v)\<rparr>,
      [TkForm])"
  using assms by (simp add: prompt_credentials_from_gui_def)

lemma form_success:
  assumes "prompt_credentials_from_gui E self = (None, s, tr)"
  shows "\<exists>d a b u p. gui_get_credentials E = Inr d
      \<and> d ''client id'' = Some a \<and> d ''client secret'' = Some b
      \<and> d ''username'' = Some u \<and> d ''password'' = Some p
      \<and> s = self\<lparr>client_id := Some a, client_secret := Some b, username := Some u,
                  password := Some p,
                  two_factor_code :=
                    Some (case d ''two factor code'' of None \<Rightarrow> ''None'' | Some v \<Rightarrow> v)\<rparr>"
  using assms
  by (auto simp: prompt_credentials_from_gui_def split: sum.splits option.splits)

lemma sentinel_keeps_password:
  "two_factor_code s = Some ''None'' \<Longrightarrow> combined_password (clean_two_factor s) = password s"
  by (simp add: combined_password_def clean_two_factor_def py_defs)

text \<open>The run of a file whose five lookups succeed, up to the constructor call.\<close>

lemma file_run:
  assumes "\<not> all_set self" and "\<not> is_exe self"
    and "path_exists E (file_path self)"
    and "config_read E (file_path self) = Parsed c"
    and "config_getitem (optionxform E) c ''reddit'' ''client_id'' = Inr a"
    and "config_getitem (optionxform E) c ''reddit'' ''client_secret'' = Inr b"
    and "config_getitem (optionxform E) c ''reddit'' ''username'' = Inr u"
    and "config_getitem (optionxform E) c ''reddit'' ''password'' = Inr p"
    and "config_get (optionxform E) c ''reddit'' ''two_factor_code'' ''None'' = Inr t"
  shows "resolve E self =
     (None,
      self\<lparr>client_id := Some a, client_secret := Some b, username := Some u,
           password := Some p, two_factor_code := Some t\<rparr>,
      [PathExists (file_path self), ConfigRead (file_path self)])"
  using assms(1,2) file_complete [OF assms(3-9)]
  by (simp add: resolve_def read_credentials_def)

text \<open>The run of a file in which a lookup fails.\<close>

lemma file_failure_run:
  assumes "\<not> all_set self" and "\<not> is_exe self"
    and "read_credentials_from_file E self = (Some e, s, tr)"
    and "\<not> is_handled e"
  shows "get_reddit_instance E self = \<lparr>result = Raised e, obj = s, events = tr\<rparr>"
proof -
  have r: "resolve E self = (Some e, s, tr)"
    using assms(1-3) by (simp add: resolve_def read_credentials_def)
  from assms(4) show ?thesis
    by (cases e) (simp_all add: get_reddit_instance_def try_body_failed [OF r])
qed

lemmas env_defs = file_env_def file_env_with_def form_env_def accepting_env_def

text \<open>
  C5, as the code has it: the file's values are read through the parser, which looks a
  key up in the \<^verbatim>\<open>reddit\<close> section and then in \<^verbatim>\<open>DEFAULT\<close>, and interpolates what
  it finds. For a file in which the four required lookups succeed and
  \<^verbatim>\<open>two_factor_code\<close> is in neither section, the resolved bundle's two-factor field is
  the text \<^verbatim>\<open>None\<close>, and the constructor gets the password that was read, unchanged; a
  form with the four fields and no \<^verbatim>\<open>two factor code\<close> does the same.
\<close>

theorem absent_code_defaults_to_None:
  "(\<not> all_set self \<and> \<not> is_exe self \<and> path_exists E (file_path self) \<and>
    config_read E (file_path self) = Parsed c \<and> cfg_sections c ''reddit'' = Some sd \<and>
    config_getitem (optionxform E) c ''reddit'' ''client_id'' = Inr a \<and>
    config_getitem (optionxform E) c ''reddit'' ''client_secret'' = Inr b \<and>
    config_getitem (optionxform E) c ''reddit'' ''username'' = Inr u \<and>
    config_getitem (optionxform E) c ''reddit'' ''password'' = Inr p \<and>
    sd ''two_factor_code'' = None \<and> cfg_defaults c ''two_factor_code'' = None
    \<longrightarrow> fst (read_credentials_from_file E self) = None
      \<and> two_factor_code (fst (snd (read_credentials_from_file E self))) = Some ''None''
      \<and> password (fst (snd (read_credentials_from_file E self))) = Some p
      \<and> two_factor_code (obj (get_reddit_instance E self)) = Some ''None''
      \<and> map arg_password (constructor_calls (events (get_reddit_instance E self))) = [Some p])
   \<and>
   (\<not> all_set self \<and> is_exe self \<and> gui_get_credentials E = Inr d \<and>
    d ''client id'' = Some a \<and> d ''client secret'' = Some b \<and>
    d ''username'' = Some u \<and> d ''password'' = Some p \<and> d ''two factor code'' = None
    \<longrightarrow> fst (prompt_credentials_from_gui E self) = None
      \<and> two_factor_code (fst (snd (prompt_credentials_from_gui E self))) = Some ''None''
      \<and> password (fst (snd (prompt_credentials_from_gui E self))) = Some p
      \<and> two_factor_code (obj (get_reddit_instance E self)) = Some ''None''
      \<and> map arg_password (constructor_calls (events (get_reddit_instance E self))) = [Some p])"
proof (intro conjI impI)
  assume h: "\<not> all_set self \<and> \<not> is_exe self \<and> path_exists E (file_path self) \<and>
    config_read E (file_path self) = Parsed c \<and> cfg_sections c ''reddit'' = Some sd \<and>
    config_getitem (optionxform E) c ''reddit'' ''client_id'' = Inr a \<and>
    config_getitem (optionxform E) c ''reddit'' ''client_secret'' = Inr b \<and>
    config_getitem (optionxform E) c ''reddit'' ''username'' = Inr u \<and>
    config_getitem (optionxform E) c ''reddit'' ''password'' = Inr p \<and>
    sd ''two_factor_code'' = None \<and> cfg_defaults c ''two_factor_code'' = None"
  let ?s = "self\<lparr>client_id := Some a, client_secret := Some b, username := Some u,
                 password := Some p, two_factor_code := Some ''None''\<rparr>"
  have t: "config_get (optionxform E) c ''reddit'' ''two_factor_code'' ''None'' = Inr ''None''"
    using h by (simp add: get_absent)
  have f: "read_credentials_from_file E self =
             (None, ?s, [PathExists (file_path self), ConfigRead (file_path self)])"
    using h t file_complete [of E self c a b u p "''None''"] by simp
  have r: "resolve E self = (None, ?s, [PathExists (file_path self), ConfigRead (file_path self)])"
    using h f by (simp add: resolve_def read_credentials_def)
  have k: "combined_password (clean_two_factor ?s) = Some p"
    by (simp add: sentinel_keeps_password)
  have n: "two_factor_code (clean_two_factor ?s) = Some ''None''"
    by (simp add: clean_two_factor_code py_replace_space_def)
  show "fst (read_credentials_from_file E self) = None"
    and "two_factor_code (fst (snd (read_credentials_from_file E self))) = Some ''None''"
    and "password (fst (snd (read_credentials_from_file E self))) = Some p"
    by (simp_all add: f)
  show "two_factor_code (obj (get_reddit_instance E self)) = Some ''None''"
    by (simp only: resolved_calls(2) [OF r] n)
  show "map arg_password (constructor_calls (events (get_reddit_instance E self))) = [Some p]"
    by (simp add: resolved_calls(1) [OF r] reddit_args_def k)
next
  assume h: "\<not> all_set self \<and> is_exe self \<and> gui_get_credentials E = Inr d \<and>
    d ''client id'' = Some a \<and> d ''client secret'' = Some b \<and>
    d ''username'' = Some u \<and> d ''password'' = Some p \<and> d ''two factor code'' = None"
  let ?s = "self\<lparr>client_id := Some a, client_secret := Some b, username := Some u,
                 password := Some p, two_factor_code := Some ''None''\<rparr>"
  have f: "prompt_credentials_from_gui E self = (None, ?s, [TkForm])"
    using h form_complete [of E d a b u p self] by simp
  have r: "resolve E self = (None, ?s, [TkForm])"
    using h f by (simp add: resolve_def read_credentials_def)
  have k: "combined_password (clean_two_factor ?s) = Some p"
    by (simp add: sentinel_keeps_password)
  have n: "two_factor_code (clean_two_factor ?s) = Some ''None''"
    by (simp add: clean_two_factor_code py_replace_space_def)
  show "fst (prompt_credentials_from_gui E self) = None"
    and "two_factor_code (fst (snd (prompt_credentials_from_gui E self))) = Some ''None''"
    and "password (fst (snd (prompt_credentials_from_gui E self))) = Some p"
    by (simp_all add: f)
  show "two_factor_code (obj (get_reddit_instance E self)) = Some ''None''"
    by (simp only: resolved_calls(2) [OF r] n)
  show "map arg_password (constructor_calls (events (get_reddit_instance E self))) = [Some p]"
    by (simp add: resolved_calls(1) [OF r] reddit_args_def k)
qed

theorem absent_code_defaults_to_None_witness:
  "two_factor_code
     (obj (get_reddit_instance (file_env four_keys)
             (init False ''reddit_credentials.ini'' ''ereddicator''))) = Some ''None''
   \<and> map arg_password
       (constructor_calls
         (events (get_reddit_instance (file_env four_keys)
                    (init False ''reddit_credentials.ini'' ''ereddicator'')))) =
     [Some ''hunter2'']
   \<and> two_factor_code
       (obj (get_reddit_instance (form_env four_fields)
               (init True ''reddit_credentials.ini'' ''ereddicator''))) = Some ''None''
   \<and> map arg_password
       (constructor_calls
         (events (get_reddit_instance (form_env four_fields)
                    (init True ''reddit_credentials.ini'' ''ereddicator'')))) =
     [Some ''hunter2'']"
proof -
  let ?f = "init False ''reddit_credentials.ini'' ''ereddicator''"
  let ?g = "init True ''reddit_credentials.ini'' ''ereddicator''"
  let ?E = "file_env four_keys"
  let ?c = "ini Map.empty four_keys"
  have hf: "\<not> all_set ?f \<and> \<not> is_exe ?f \<and> path_exists ?E (file_path ?f) \<and>
    config_read ?E (file_path ?f) = Parsed ?c \<and> cfg_sections ?c ''reddit'' = Some four_keys \<and>
    config_getitem (optionxform ?E) ?c ''reddit'' ''client_id'' = Inr ''id'' \<and>
    config_getitem (optionxform ?E) ?c ''reddit'' ''client_secret'' = Inr ''secret'' \<and>
    config_getitem (optionxform ?E) ?c ''reddit'' ''username'' = Inr ''user'' \<and>
    config_getitem (optionxform ?E) ?c ''reddit'' ''password'' = Inr ''hunter2'' \<and>
    four_keys ''two_factor_code'' = None \<and> cfg_defaults ?c ''two_factor_code'' = None"
    by (simp add: all_set_def init_def py_truthy_def env_defs lookup_defs four_keys_def)
  have hg: "\<not> all_set ?g \<and> is_exe ?g \<and>
    gui_get_credentials (form_env four_fields) = Inr four_fields \<and>
    four_fields ''client id'' = Some ''id'' \<and> four_fields ''client secret'' = Some ''secret'' \<and>
    four_fields ''username'' = Some ''user'' \<and> four_fields ''password'' = Some ''hunter2'' \<and>
    four_fields ''two factor code'' = None"
    by (simp add: all_set_def init_def py_truthy_def env_defs four_fields_def)
  show ?thesis
    using absent_code_defaults_to_None
            [of ?f ?E ?c four_keys "''id''" "''secret''" "''user''" "''hunter2''" four_fields]
          absent_code_defaults_to_None
            [of ?g "form_env four_fields" ?c four_keys "''id''" "''secret''" "''user''"
                "''hunter2''" four_fields]
          hf hg
    by blast
qed

text \<open>C5 as stated fails on two files that have the four required keys in the
  \<^verbatim>\<open>reddit\<close> section and no \<^verbatim>\<open>two_factor_code\<close> there. With
  \<^verbatim>\<open>password = p%ss\<close> the lookup of line 86 raises an interpolation error that no handler
  names: nothing is resolved, no constructor call is made. With
  \<^verbatim>\<open>two_factor_code = 123456\<close> under \<^verbatim>\<open>DEFAULT\<close> the two-factor field is that code and
  it is merged into the password.\<close>

theorem percent_and_default_counterexample:
  "result (get_reddit_instance (file_env percent_password_keys)
             (init False ''reddit_credentials.ini'' ''ereddicator'')) =
     Raised (InterpolationSyntaxError ''password'')
   \<and> two_factor_code
       (obj (get_reddit_instance (file_env percent_password_keys)
               (init False ''reddit_credentials.ini'' ''ereddicator''))) = None
   \<and> constructor_calls
       (events (get_reddit_instance (file_env percent_password_keys)
                  (init False ''reddit_credentials.ini'' ''ereddicator''))) = []
   \<and> two_factor_code
       (obj (get_reddit_instance (file_env_with default_code four_keys)
               (init False ''reddit_credentials.ini'' ''ereddicator''))) = Some ''123456''
   \<and> map arg_password
       (constructor_calls
         (events (get_reddit_instance (file_env_with default_code four_keys)
                    (init False ''reddit_credentials.ini'' ''ereddicator'')))) =
     [Some ''hunter2:123456'']"
proof -
  let ?f = "init False ''reddit_credentials.ini'' ''ereddicator''"
  let ?P = "file_env percent_password_keys"
  let ?D = "file_env_with default_code four_keys"
  have nf: "\<not> all_set ?f" "\<not> is_exe ?f"
    by (simp_all add: all_set_def init_def py_truthy_def)
  have p: "read_credentials_from_file ?P ?f =
             (Some (InterpolationSyntaxError ''password''),
              ?f\<lparr>client_id := Some ''id'', client_secret := Some ''secret'',
                  username := Some ''user''\<rparr>,
              [PathExists (file_path ?f), ConfigRead (file_path ?f)])"
    by (simp add: read_credentials_from_file_def Let_def env_defs lookup_defs
          percent_password_keys_def four_keys_def init_def)
  have pr: "get_reddit_instance ?P ?f =
              \<lparr>result = Raised (InterpolationSyntaxError ''password''),
               obj = ?f\<lparr>client_id := Some ''id'', client_secret := Some ''secret'',
                         username := Some ''user''\<rparr>,
               events = [PathExists (file_path ?f), ConfigRead (file_path ?f)]\<rparr>"
    by (rule file_failure_run [OF nf p]) simp
  let ?s = "?f\<lparr>client_id := Some ''id'', client_secret := Some ''secret'',
                username := Some ''user'', password := Some ''hunter2'',
                two_factor_code := Some ''123456''\<rparr>"
  have d: "read_credentials_from_file ?D ?f =
             (None, ?s, [PathExists (file_path ?f), ConfigRead (file_path ?f)])"
    by (simp add: read_credentials_from_file_def Let_def env_defs lookup_defs
          default_code_def four_keys_def init_def)
  have dr: "resolve ?D ?f = (None, ?s, [PathExists (file_path ?f), ConfigRead (file_path ?f)])"
    using nf d by (simp add: resolve_def read_credentials_def)
  have dc: "constructor_calls (events (get_reddit_instance ?D ?f)) =
              [reddit_args (clean_two_factor ?s)]"
    and do: "obj (get_reddit_instance ?D ?f) = clean_two_factor ?s"
    by (rule resolved_calls [OF dr])+
  have dt: "two_factor_code (clean_two_factor ?s) = Some ''123456''"
    by (simp add: clean_two_factor_def py_defs)
  have dp: "arg_password (reddit_args (clean_two_factor ?s)) = Some ''hunter2:123456''"
    by (simp add: reddit_args_def combined_password_def clean_two_factor_def py_defs)
  show ?thesis
    unfolding pr dc do using dt dp by (simp add: init_def)
qed

lemma handler_keeps_sources:
  "sources_used (events (get_reddit_instance E self)) =
     sources_used (snd (snd (try_body E self)))"
  by (auto simp: get_reddit_instance_def split: prod.splits sum.splits exn.splits)

lemma try_body_sources:
  "sources_used (snd (snd (try_body E self))) = sources_used (snd (snd (resolve E self)))"
  by (auto simp: try_body_def Let_def split: prod.splits option.splits)

lemma read_credentials_sources:
  "sources_used (snd (snd (read_credentials E self))) =
     {if is_exe self then Interactive else FileBacked}"
proof (cases "is_exe self")
  case True
  obtain r s tr where p: "prompt_credentials_from_gui E self = (r, s, tr)"
    by (cases "prompt_credentials_from_gui E self")
  show ?thesis
    using True p prompt_events [OF p] by (simp add: read_credentials_def)
next
  case False
  obtain r s tr where p: "read_credentials_from_file E self = (r, s, tr)"
    by (cases "read_credentials_from_file E self")
  show ?thesis
    using False p read_file_events [OF p] by (auto simp: read_credentials_def)
qed

lemma form_only:
  assumes "gui_get_credentials E' = gui_get_credentials E"
  shows "prompt_credentials_from_gui E' self = prompt_credentials_from_gui E self"
  unfolding prompt_credentials_from_gui_def assms by (rule refl)

lemma file_only:
  assumes "path_exists E' = path_exists E" and "config_read E' = config_read E"
    and "optionxform E' = optionxform E"
  shows "read_credentials_from_file E' self = read_credentials_from_file E self"
  unfolding read_credentials_from_file_def assms by (rule refl)

text \<open>
  C6, as the code has it: the entry point resolves credentials only when one of the four
  required fields is unset (line 106). Credential resolution consults exactly one source,
  the form if \<open>is_exe\<close> is set and the file otherwise, never both; its outcome does not
  depend on the other source; and when it succeeds, the five fields of the bundle are
  what that source gave (the submitted fields of the form, the looked-up values of the
  file). A run that enters with the four fields set consults neither source.
\<close>

theorem exactly_one_source:
  "sources_used (snd (snd (read_credentials E self))) =
     {if is_exe self then Interactive else FileBacked}
   \<and> sources_used (events (get_reddit_instance E self)) =
       (if all_set self then {} else {if is_exe self then Interactive else FileBacked})
   \<and> (is_exe self \<and> gui_get_credentials E' = gui_get_credentials E
        \<longrightarrow> read_credentials E' self = read_credentials E self)
   \<and> (\<not> is_exe self \<and> path_exists E' = path_exists E \<and> config_read E' = config_read E
        \<and> optionxform E' = optionxform E
        \<longrightarrow> read_credentials E' self = read_credentials E self)
   \<and> (is_exe self \<and> read_credentials E self = (None, s, tr) \<longrightarrow>
        (\<exists>d a b u p. gui_get_credentials E = Inr d
           \<and> d ''client id'' = Some a \<and> d ''client secret'' = Some b
           \<and> d ''username'' = Some u \<and> d ''password'' = Some p
           \<and> client_id s = Some a \<and> client_secret s = Some b \<and> username s = Some u
           \<and> password s = Some p
           \<and> two_factor_code s =
               Some (case d ''two factor code'' of None \<Rightarrow> ''None'' | Some v \<Rightarrow> v)))
   \<and> (\<not> is_exe self \<and> read_credentials E self = (None, s, tr) \<longrightarrow>
        (\<exists>c a b u p t. config_read E (file_path self) = Parsed c
           \<and> config_getitem (optionxform E) c ''reddit'' ''client_id'' = Inr a
           \<and> config_getitem (optionxform E) c ''reddit'' ''client_secret'' = Inr b
           \<and> config_getitem (optionxform E) c ''reddit'' ''username'' = Inr u
           \<and> config_getitem (optionxform E) c ''reddit'' ''password'' = Inr p
           \<and> config_get (optionxform E) c ''reddit'' ''two_factor_code'' ''None'' = Inr t
           \<and> client_id s = Some a \<and> client_secret s = Some b \<and> username s = Some u
           \<and> password s = Some p \<and> two_factor_code s = Some t))"
proof (intro conjI impI)
  show "sources_used (snd (snd (read_credentials E self))) =
          {if is_exe self then Interactive else FileBacked}"
    by (rule read_credentials_sources)
  show "sources_used (events (get_reddit_instance E self)) =
          (if all_set self then {} else {if is_exe self then Interactive else FileBacked})"
    unfolding handler_keeps_sources try_body_sources
    using read_credentials_sources [of E self] by (simp add: resolve_def)
next
  assume "is_exe self \<and> gui_get_credentials E' = gui_get_credentials E"
  then show "read_credentials E' self = read_credentials E self"
    by (simp add: read_credentials_def form_only [of E' E self])
next
  assume "\<not> is_exe self \<and> path_exists E' = path_exists E \<and> config_read E' = config_read E
        \<and> optionxform E' = optionxform E"
  then show "read_credentials E' self = read_credentials E self"
    by (simp add: read_credentials_def file_only [of E' E self])
next
  assume "is_exe self \<and> read_credentials E self = (None, s, tr)"
  then have "prompt_credentials_from_gui E self = (None, s, tr)"
    by (auto simp: read_credentials_def)
  from form_success [OF this]
  obtain d a b u p where "gui_get_credentials E = Inr d"
    and "d ''client id'' = Some a" and "d ''client secret'' = Some b"
    and "d ''username'' = Some u" and "d ''password'' = Some p"
    and "s = self\<lparr>client_id := Some a, client_secret := Some b, username := Some u,
                   password := Some p,
                   two_factor_code :=
                     Some (case d ''two factor code'' of None \<Rightarrow> ''None'' | Some v \<Rightarrow> v)\<rparr>"
    by blast
  then show "\<exists>d a b u p. gui_get_credentials E = Inr d
           \<and> d ''client id'' = Some a \<and> d ''client secret'' = Some b
           \<and> d ''username'' = Some u \<and> d ''password'' = Some p
           \<and> client_id s = Some a \<and> client_secret s = Some b \<and> username s = Some u
           \<and> password s = Some p
           \<and> two_factor_code s =
               Some (case d ''two factor code'' of None \<Rightarrow> ''None'' | Some v \<Rightarrow> v)"
    by simp
next
  assume "\<not> is_exe self \<and> read_credentials E self = (None, s, tr)"
  then have "read_credentials_from_file E self = (None, s, tr)"
    by (auto simp: read_credentials_def)
  from file_success [OF this]
  obtain c a b u p t where "config_read E (file_path self) = Parsed c"
    and "config_getitem (optionxform E) c ''reddit'' ''client_id'' = Inr a"
    and "config_getitem (optionxform E) c ''reddit'' ''client_secret'' = Inr b"
    and "config_getitem (optionxform E) c ''reddit'' ''username'' = Inr u"
    and "config_getitem (optionxform E) c ''reddit'' ''password'' = Inr p"
    and "config_get (optionxform E) c ''reddit'' ''two_factor_code'' ''None'' = Inr t"
    and "s = self\<lparr>client_id := Some a, client_secret := Some b, username := Some u,
                   password := Some p, two_factor_code := Some t\<rparr>"
    by blast
  then show "\<exists>c a b u p t. config_read E (file_path self) = Parsed c
           \<and> config_getitem (optionxform E) c ''reddit'' ''client_id'' = Inr a
           \<and> config_getitem (optionxform E) c ''reddit'' ''client_secret'' = Inr b
           \<and> config_getitem (optionxform E) c ''reddit'' ''username'' = Inr u
           \<and> config_getitem (optionxform E) c ''reddit'' ''password'' = Inr p
           \<and> config_get (optionxform E) c ''reddit'' ''two_factor_code'' ''None'' = Inr t
           \<and> client_id s = Some a \<and> client_secret s = Some b \<and> username s = Some u
           \<and> password s = Some p \<and> two_factor_code s = Some t"
    by simp
qed

lemma both_env_file:
  "read_credentials both_env (init False ''reddit_credentials.ini'' ''ereddicator'') =
     (None,
      (init False ''reddit_credentials.ini'' ''ereddicator'')
        \<lparr>client_id := Some ''file-id'', client_secret := Some ''file-secret'',
         username := Some ''file-user'', password := Some ''file-pw'',
         two_factor_code := Some ''None''\<rparr>,
      [PathExists ''reddit_credentials.ini'', ConfigRead ''reddit_credentials.ini''])"
  by (simp add: read_credentials_def read_credentials_from_file_def Let_def both_env_def
        env_defs lookup_defs file_keys_def init_def)

lemma both_env_form:
  "read_credentials both_env (init True ''reddit_credentials.ini'' ''ereddicator'') =
     (None,
      (init True ''reddit_credentials.ini'' ''ereddicator'')
        \<lparr>client_id := Some ''form-id'', client_secret := Some ''form-secret'',
         username := Some ''form-user'', password := Some ''form-pw'',
         two_factor_code := Some ''None''\<rparr>,
      [TkForm])"
  by (simp add: read_credentials_def prompt_credentials_from_gui_def both_env_def
        form_fields_def init_def)

theorem exactly_one_source_witness:
  "read_credentials (file_env file_keys) (init False ''reddit_credentials.ini'' ''ereddicator'')
     = read_credentials both_env (init False ''reddit_credentials.ini'' ''ereddicator'')
   \<and> read_credentials (form_env form_fields) (init True ''reddit_credentials.ini'' ''ereddicator'')
     = read_credentials both_env (init True ''reddit_credentials.ini'' ''ereddicator'')
   \<and> (\<exists>c. config_read both_env ''reddit_credentials.ini'' = Parsed c
         \<and> config_getitem (optionxform both_env) c ''reddit'' ''client_id'' = Inr ''file-id''
         \<and> config_getitem (optionxform both_env) c ''reddit'' ''password'' = Inr ''file-pw'')
   \<and> (\<exists>d. gui_get_credentials both_env = Inr d
         \<and> d ''client id'' = Some ''form-id'' \<and> d ''password'' = Some ''form-pw'')"
proof -
  let ?f = "init False ''reddit_credentials.ini'' ''ereddicator''"
  let ?g = "init True ''reddit_credentials.ini'' ''ereddicator''"
  let ?sf = "?f\<lparr>client_id := Some ''file-id'', client_secret := Some ''file-secret'',
                 username := Some ''file-user'', password := Some ''file-pw'',
                 two_factor_code := Some ''None''\<rparr>"
  let ?sg = "?g\<lparr>client_id := Some ''form-id'', client_secret := Some ''form-secret'',
                 username := Some ''form-user'', password := Some ''form-pw'',
                 two_factor_code := Some ''None''\<rparr>"
  let ?tf = "[PathExists ''reddit_credentials.ini'', ConfigRead ''reddit_credentials.ini'']"
  have hf: "\<not> is_exe ?f \<and> path_exists (file_env file_keys) = path_exists both_env \<and>
            config_read (file_env file_keys) = config_read both_env \<and>
            optionxform (file_env file_keys) = optionxform both_env"
    by (simp add: init_def both_env_def)
  have hg: "is_exe ?g \<and> gui_get_credentials (form_env form_fields) = gui_get_credentials both_env"
    by (simp add: init_def both_env_def form_env_def)
  have sf: "\<not> is_exe ?f \<and> read_credentials both_env ?f = (None, ?sf, ?tf)"
    using both_env_file by (simp add: init_def)
  have sg: "is_exe ?g \<and> read_credentials both_env ?g = (None, ?sg, [TkForm])"
    using both_env_form by (simp add: init_def)
  have fp: "file_path ?f = ''reddit_credentials.ini''"
    by (simp add: init_def)
  have vf: "client_id ?sf = Some ''file-id'' \<and> password ?sf = Some ''file-pw''"
    and vg: "client_id ?sg = Some ''form-id'' \<and> password ?sg = Some ''form-pw''"
    by simp_all
  note one = exactly_one_source [of both_env ?f "file_env file_keys" ?sf ?tf]
  note two = exactly_one_source [of both_env ?g "form_env form_fields" ?sg "[TkForm]"]
  from one hf have a: "read_credentials (file_env file_keys) ?f = read_credentials both_env ?f"
    by blast
  from two hg have b: "read_credentials (form_env form_fields) ?g = read_credentials both_env ?g"
    by blast
  from one sf have "\<exists>c a b u p t. config_read both_env (file_path ?f) = Parsed c
           \<and> config_getitem (optionxform both_env) c ''reddit'' ''client_id'' = Inr a
           \<and> config_getitem (optionxform both_env) c ''reddit'' ''client_secret'' = Inr b
           \<and> config_getitem (optionxform both_env) c ''reddit'' ''username'' = Inr u
           \<and> config_getitem (optionxform both_env) c ''reddit'' ''password'' = Inr p
           \<and> config_get (optionxform both_env) c ''reddit'' ''two_factor_code'' ''None'' = Inr t
           \<and> client_id ?sf = Some a \<and> client_secret ?sf = Some b \<and> username ?sf = Some u
           \<and> password ?sf = Some p \<and> two_factor_code ?sf = Some t"
    by blast
  then have c: "\<exists>c. config_read both_env ''reddit_credentials.ini'' = Parsed c
         \<and> config_getitem (optionxform both_env) c ''reddit'' ''client_id'' = Inr ''file-id''
         \<and> config_getitem (optionxform both_env) c ''reddit'' ''password'' = Inr ''file-pw''"
    unfolding fp by auto
  from two sg have "\<exists>d a b u p. gui_get_credentials both_env = Inr d
           \<and> d ''client id'' = Some a \<and> d ''client secret'' = Some b
           \<and> d ''username'' = Some u \<and> d ''password'' = Some p
           \<and> client_id ?sg = Some a \<and> client_secret ?sg = Some b \<and> username ?sg = Some u
           \<and> password ?sg = Some p
           \<and> two_factor_code ?sg =
               Some (case d ''two factor code'' of None \<Rightarrow> ''None'' | Some v \<Rightarrow> v)"
    by blast
  then have d: "\<exists>d. gui_get_credentials both_env = Inr d
         \<and> d ''client id'' = Some ''form-id'' \<and> d ''password'' = Some ''form-pw''"
    by auto
  from a b c d show ?thesis by blast
qed

text \<open>C6 as stated fails on a run that enters with the four fields set: with a file and
  a form both there, neither is consulted, and the constructor gets the client identifier
  the object came with, which is neither the file's nor the form's. It fails too on a run
  whose one source has nothing to give: with no file, the bundle stays unpopulated.\<close>

theorem preset_uses_no_source_counterexample:
  "sources_used (events (get_reddit_instance both_env (preset ''None''))) = {}
   \<and> map arg_client_id (constructor_calls (events (get_reddit_instance both_env (preset ''None''))))
       = [Some ''id'']
   \<and> file_keys ''client_id'' = Some ''file-id''
   \<and> form_fields ''client id'' = Some ''form-id''
   \<and> client_id (obj (get_reddit_instance accepting_env
                          (init False ''reddit_credentials.ini'' ''ereddicator''))) = None"
proof -
  have n: "\<not> all_set (init False ''reddit_credentials.ini'' ''ereddicator'')"
      "\<not> is_exe (init False ''reddit_credentials.ini'' ''ereddicator'')"
      "\<not> path_exists accepting_env
           (file_path (init False ''reddit_credentials.ini'' ''ereddicator''))"
    by (simp_all add: all_set_def init_def py_truthy_def accepting_env_def)
  have m: "client_id (obj (get_reddit_instance accepting_env
                          (init False ''reddit_credentials.ini'' ''ereddicator''))) = None"
    unfolding missing_file_run [OF n] by (simp add: init_def)
  have "sources_used (events (get_reddit_instance both_env (preset ''None''))) = {}"
    unfolding handler_keeps_sources try_body_sources
    by (simp add: resolve_preset [OF preset_all_set])
  moreover have "map arg_client_id
       (constructor_calls (events (get_reddit_instance both_env (preset ''None'')))) = [Some ''id'']"
    unfolding preset_calls by (simp add: reddit_args_def preset_def init_def)
  ultimately show ?thesis
    using m by (simp add: file_keys_def form_fields_def)
qed

subsection \<open>How a run ends\<close>

lemma exit_only_from_handlers:
  assumes "result (get_reddit_instance E self) = SystemExit c"
  shows "c = 1 \<and> (\<exists>m. fst (try_body E self) \<in>
            {Inl (FileNotFoundError m), Inl (OAuthException m), Inl (ResponseException m)})"
  using assms
  by (auto simp: get_reddit_instance_def split: prod.splits sum.splits exn.splits)

lemma returned_only_verified:
  assumes "result (get_reddit_instance E self) = Returned reddit"
  shows "\<exists>args. reddit = Session args \<and> praw_Reddit E args = None \<and> user_me E args = None
           \<and> constructor_calls (events (get_reddit_instance E self)) = [args]
           \<and> verification_calls (events (get_reddit_instance E self)) = [args]"
proof -
  obtain r s tr where res: "resolve E self = (r, s, tr)"
    by (cases "resolve E self")
  show ?thesis
  proof (cases r)
    case (Some e)
    with res assms show ?thesis
      by (auto simp: get_reddit_instance_def try_body_def split: exn.splits)
  next
    case None
    with res have res': "resolve E self = (None, s, tr)" by simp
    from assms resolve_quiet [OF res'] show ?thesis
      by (auto simp: get_reddit_instance_def try_body_resolved [OF res'] Let_def
               split: option.splits exn.splits)
  qed
qed

lemma accepted_run:
  assumes "resolve E self = (None, s, tr)"
    and "praw_Reddit E (reddit_args (clean_two_factor s)) = None"
    and "user_me E (reddit_args (clean_two_factor s)) = None"
  shows "get_reddit_instance E self =
     \<lparr>result = Returned (Session (reddit_args (clean_two_factor s))),
      obj = clean_two_factor s,
      events = tr @ [Print ''Retrieving Reddit Authentication instance...'',
                     PrawReddit (reddit_args (clean_two_factor s)),
                     UserMe (reddit_args (clean_two_factor s)),
                     Print ''Successfully authenticated.'']\<rparr>"
  using assms(2-3)
  by (simp add: get_reddit_instance_def try_body_resolved [OF assms(1)] Let_def)

text \<open>
  C7: the only exit the entry point makes is \<^verbatim>\<open>sys.exit(1)\<close>, and it makes it exactly
  when a \<^verbatim>\<open>FileNotFoundError\<close>, an \<^verbatim>\<open>OAuthException\<close> or a
  \<^verbatim>\<open>ResponseException\<close> leaves the \<^verbatim>\<open>try\<close> block, so on a missing credentials file
  and on a rejected login; it returns (the process goes on, to end with code 0) only with
  the session that the verification call accepted.
\<close>

theorem exit_codes:
  "(result (get_reddit_instance E self) = SystemExit c \<longrightarrow>
      c = 1 \<and> (\<exists>m. fst (try_body E self) \<in>
            {Inl (FileNotFoundError m), Inl (OAuthException m), Inl (ResponseException m)}))
   \<and> (result (get_reddit_instance E self) = Returned reddit \<longrightarrow>
        (\<exists>args. reddit = Session args \<and> praw_Reddit E args = None \<and> user_me E args = None
           \<and> constructor_calls (events (get_reddit_instance E self)) = [args]))
   \<and> (\<not> all_set self \<and> \<not> is_exe self \<and> \<not> path_exists E (file_path self) \<longrightarrow>
        result (get_reddit_instance E self) = SystemExit 1)
   \<and> (resolve E self = (None, s, tr) \<and>
      praw_Reddit E (reddit_args (clean_two_factor s)) = None \<and>
      user_me E (reddit_args (clean_two_factor s)) = Some e \<and>
      (e = OAuthException m \<or> e = ResponseException m) \<longrightarrow>
        result (get_reddit_instance E self) = SystemExit 1)"
proof (intro conjI impI)
  assume "result (get_reddit_instance E self) = SystemExit c"
  from exit_only_from_handlers [OF this]
  show "c = 1"
    and "\<exists>m. fst (try_body E self) \<in>
            {Inl (FileNotFoundError m), Inl (OAuthException m), Inl (ResponseException m)}"
    by simp_all
next
  assume "result (get_reddit_instance E self) = Returned reddit"
  from returned_only_verified [OF this]
  show "\<exists>args. reddit = Session args \<and> praw_Reddit E args = None \<and> user_me E args = None
           \<and> constructor_calls (events (get_reddit_instance E self)) = [args]"
    by blast
next
  assume "\<not> all_set self \<and> \<not> is_exe self \<and> \<not> path_exists E (file_path self)"
  then show "result (get_reddit_instance E self) = SystemExit 1"
    by (simp add: missing_file_run)
next
  assume "resolve E self = (None, s, tr) \<and>
      praw_Reddit E (reddit_args (clean_two_factor s)) = None \<and>
      user_me E (reddit_args (clean_two_factor s)) = Some e \<and>
      (e = OAuthException m \<or> e = ResponseException m)"
  then show "result (get_reddit_instance E self) = SystemExit 1"
    by (simp add: rejected_run [of E self s tr e m])
qed

theorem exit_codes_witness:
  "result (get_reddit_instance accepting_env
             (init False ''reddit_credentials.ini'' ''ereddicator'')) = SystemExit 1
   \<and> result (get_reddit_instance rejecting_env (preset ''None'')) = SystemExit 1
   \<and> (\<exists>m. fst (try_body rejecting_env (preset ''None'')) \<in>
            {Inl (FileNotFoundError m), Inl (OAuthException m), Inl (ResponseException m)})
   \<and> (\<exists>args. result (get_reddit_instance accepting_env (preset ''None'')) =
                 Returned (Session args)
             \<and> user_me accepting_env args = None)"
proof -
  let ?f = "init False ''reddit_credentials.ini'' ''ereddicator''"
  let ?p = "preset ''None''"
  let ?a = "reddit_args (clean_two_factor ?p)"
  have missing: "\<not> all_set ?f \<and> \<not> is_exe ?f \<and> \<not> path_exists accepting_env (file_path ?f)"
    by (simp add: all_set_def init_def py_truthy_def accepting_env_def)
  have rej: "resolve rejecting_env ?p = (None, ?p, []) \<and>
      praw_Reddit rejecting_env ?a = None \<and>
      user_me rejecting_env ?a = Some (OAuthException ''invalid_grant'') \<and>
      (OAuthException ''invalid_grant'' = OAuthException ''invalid_grant'' \<or>
       OAuthException ''invalid_grant'' = ResponseException ''invalid_grant'')"
    by (simp add: resolve_preset [OF preset_all_set] rejecting_env_def accepting_env_def)
  have acc: "result (get_reddit_instance accepting_env ?p) = Returned (Session ?a)"
    by (simp add: accepted_run [OF resolve_preset [OF preset_all_set]] accepting_env_def)
  have one: "result (get_reddit_instance accepting_env ?f) = SystemExit 1"
    using exit_codes [of accepting_env ?f] missing by blast
  have two: "result (get_reddit_instance rejecting_env ?p) = SystemExit 1"
    using exit_codes [of rejecting_env ?p _ _ ?p "[]" "OAuthException ''invalid_grant''"
                         "''invalid_grant''"] rej
    by blast
  have three: "\<exists>m. fst (try_body rejecting_env ?p) \<in>
            {Inl (FileNotFoundError m), Inl (OAuthException m), Inl (ResponseException m)}"
    using exit_codes [of rejecting_env ?p 1] two by blast
  have four: "\<exists>args. Session ?a = Session args \<and> praw_Reddit accepting_env args = None
            \<and> user_me accepting_env args = None
            \<and> constructor_calls (events (get_reddit_instance accepting_env ?p)) = [args]"
    using exit_codes [of accepting_env ?p _ "Session ?a"] acc by blast
  from four acc have "\<exists>args. result (get_reddit_instance accepting_env ?p) =
                 Returned (Session args) \<and> user_me accepting_env args = None"
    by auto
  with one two three show ?thesis by blast
qed

subsection \<open>The fields at the constructor call\<close>

lemma truthy_present: "py_truthy v \<Longrightarrow> v \<noteq> None"
  by (cases v) (simp_all add: py_truthy_def)

lemma combined_truthy:
  "py_truthy (password s) \<Longrightarrow> py_truthy (combined_password s)"
  by (auto simp: combined_password_def py_truthy_def split: option.splits)

lemma combined_present:
  "password s \<noteq> None \<Longrightarrow> combined_password s \<noteq> None"
  by (auto simp: combined_password_def split: option.splits)

lemma resolved_present:
  assumes "resolve E self = (None, s, tr)"
  shows "client_id s \<noteq> None \<and> client_secret s \<noteq> None \<and> username s \<noteq> None \<and>
         password s \<noteq> None"
proof (cases "all_set self")
  case True
  with assms show ?thesis
    by (auto simp: resolve_def all_set_def dest: truthy_present)
next
  case False
  with assms show ?thesis
    by (auto simp: resolve_def read_credentials_def prompt_credentials_from_gui_def
          read_credentials_from_file_def Let_def
          split: if_splits sum.splits option.splits read_result.splits)
qed

lemma calls_of_run:
  "constructor_calls (events (get_reddit_instance E self)) =
     (case resolve E self of
        (None, s, tr) \<Rightarrow> [reddit_args (clean_two_factor s)]
      | (Some e, s, tr) \<Rightarrow> [])"
proof -
  obtain r s tr where res: "resolve E self = (r, s, tr)"
    by (cases "resolve E self")
  show ?thesis
  proof (cases r)
    case None
    with res have "resolve E self = (None, s, tr)" by simp
    then show ?thesis by (simp add: resolved_calls(1))
  next
    case (Some e)
    with res have f: "resolve E self = (Some e, s, tr)" by simp
    from resolve_quiet(1) [OF f] show ?thesis
      by (simp add: handler_keeps_calls(1) try_body_failed [OF f] f)
  qed
qed

text \<open>
  C8, as the code has it: line 106 decides whether to read the credentials; nothing
  checks what was read. In every run, the four required arguments of a constructor call
  are present (strings, not \<^verbatim>\<open>None\<close>), and they are non-empty when the four fields
  were non-empty on entry.
\<close>

theorem required_fields_at_constructor:
  "list_all required_present (constructor_calls (events (get_reddit_instance E self)))
   \<and> (all_set self \<longrightarrow>
        constructor_calls (events (get_reddit_instance E self)) =
          [reddit_args (clean_two_factor self)]
        \<and> required_nonempty (reddit_args (clean_two_factor self)))"
proof (intro conjI impI)
  obtain r s tr where res: "resolve E self = (r, s, tr)"
    by (cases "resolve E self")
  show "list_all required_present (constructor_calls (events (get_reddit_instance E self)))"
  proof (cases r)
    case None
    with res have f: "resolve E self = (None, s, tr)" by simp
    from resolved_present [OF f] show ?thesis
      by (simp add: calls_of_run f required_present_def reddit_args_def combined_present)
  next
    case (Some e)
    with res show ?thesis by (simp add: calls_of_run)
  qed
next
  assume a: "all_set self"
  show "constructor_calls (events (get_reddit_instance E self)) =
          [reddit_args (clean_two_factor self)]"
    by (rule resolved_calls(1) [OF resolve_preset [OF a]])
  from a show "required_nonempty (reddit_args (clean_two_factor self))"
    by (simp add: required_nonempty_def reddit_args_def all_set_def combined_truthy)
qed

theorem required_fields_at_constructor_witness:
  "constructor_calls (events (get_reddit_instance accepting_env (preset ''None''))) =
     [reddit_args (clean_two_factor (preset ''None''))]
   \<and> required_nonempty (reddit_args (clean_two_factor (preset ''None'')))"
  using required_fields_at_constructor [of accepting_env "preset ''None''"] preset_all_set
  by blast

text \<open>C8 as stated fails on a credentials file with the line \<^verbatim>\<open>password =\<close>: the
  constructor is called with the empty password.\<close>

theorem empty_password_counterexample:
  "map arg_password
     (constructor_calls
       (events (get_reddit_instance (file_env empty_password_keys)
                  (init False ''reddit_credentials.ini'' ''ereddicator'')))) = [Some []]
   \<and> \<not> list_all required_nonempty
       (constructor_calls
         (events (get_reddit_instance (file_env empty_password_keys)
                    (init False ''reddit_credentials.ini'' ''ereddicator''))))"
proof -
  let ?f = "init False ''reddit_credentials.ini'' ''ereddicator''"
  let ?s = "?f\<lparr>client_id := Some ''id'', client_secret := Some ''secret'',
               username := Some ''user'', password := Some [],
               two_factor_code := Some ''None''\<rparr>"
  have f: "read_credentials_from_file (file_env empty_password_keys) ?f =
             (None, ?s, [PathExists (file_path ?f), ConfigRead (file_path ?f)])"
    by (simp add: read_credentials_from_file_def Let_def env_defs lookup_defs
          empty_password_keys_def four_keys_def init_def)
  have r: "resolve (file_env empty_password_keys) ?f =
             (None, ?s, [PathExists (file_path ?f), ConfigRead (file_path ?f)])"
    using f by (simp add: resolve_def read_credentials_def all_set_def init_def py_truthy_def)
  have c: "constructor_calls (events (get_reddit_instance (file_env empty_password_keys) ?f)) =
             [reddit_args (clean_two_factor ?s)]"
    by (rule resolved_calls(1) [OF r])
  have p: "arg_password (reddit_args (clean_two_factor ?s)) = Some []"
    by (simp add: reddit_args_def sentinel_keeps_password)
  show ?thesis
    unfolding c using p by (simp add: required_nonempty_def py_truthy_def)
qed

subsection \<open>Cleaning the code twice\<close>

lemma clean_two_factor_idem: "clean_two_factor (clean_two_factor b) = clean_two_factor b"
proof (cases "two_factor_code b")
  case None
  then show ?thesis by (simp add: clean_two_factor_none)
next
  case (Some t)
  then show ?thesis
    by (cases "py_replace_space t = []") (simp_all add: clean_two_factor_def py_truthy_def)
qed

lemma clean_keeps_all_set: "all_set (clean_two_factor s) = all_set s"
  by (simp add: all_set_def)

text \<open>
  C9: the entry point stores the space-free code on the object (the run's final object
  carries it), and doing it again changes nothing: cleaning a cleaned bundle gives the
  same bundle and the same merged password, and a second call of the entry point on the
  object the first call left gives the constructor the same arguments.
\<close>

theorem cleaning_persists_and_is_idempotent:
  "(resolve E self = (None, s, tr) \<and> two_factor_code s = Some t \<longrightarrow>
      two_factor_code (obj (get_reddit_instance E self)) = Some (py_replace_space t))
   \<and> clean_two_factor (clean_two_factor b) = clean_two_factor b
   \<and> combined_password (clean_two_factor (clean_two_factor b)) =
       combined_password (clean_two_factor b)
   \<and> (all_set self \<longrightarrow>
        constructor_calls
          (events (get_reddit_instance E' (obj (get_reddit_instance E self)))) =
        constructor_calls (events (get_reddit_instance E self)))"
proof (intro conjI impI)
  assume h: "resolve E self = (None, s, tr) \<and> two_factor_code s = Some t"
  then have r: "resolve E self = (None, s, tr)" and t: "two_factor_code s = Some t"
    by simp_all
  show "two_factor_code (obj (get_reddit_instance E self)) = Some (py_replace_space t)"
    by (simp only: resolved_calls(2) [OF r] clean_two_factor_code [OF t])
next
  show "clean_two_factor (clean_two_factor b) = clean_two_factor b"
    by (rule clean_two_factor_idem)
  show "combined_password (clean_two_factor (clean_two_factor b)) =
          combined_password (clean_two_factor b)"
    by (simp only: clean_two_factor_idem)
next
  assume a: "all_set self"
  have o: "obj (get_reddit_instance E self) = clean_two_factor self"
    by (rule resolved_calls(2) [OF resolve_preset [OF a]])
  have a': "all_set (clean_two_factor self)"
    using a by (simp only: clean_keeps_all_set)
  show "constructor_calls
          (events (get_reddit_instance E' (obj (get_reddit_instance E self)))) =
        constructor_calls (events (get_reddit_instance E self))"
    by (simp only: o resolved_calls(1) [OF resolve_preset [OF a']]
          resolved_calls(1) [OF resolve_preset [OF a]] clean_two_factor_idem)
qed

theorem cleaning_persists_and_is_idempotent_witness:
  "two_factor_code (obj (get_reddit_instance accepting_env (preset '' 123 456 ''))) =
     Some ''123456''
   \<and> constructor_calls
       (events (get_reddit_instance rejecting_env
                  (obj (get_reddit_instance accepting_env (preset '' 123 456 ''))))) =
     constructor_calls (events (get_reddit_instance accepting_env (preset '' 123 456 '')))"
proof -
  let ?p = "preset '' 123 456 ''"
  have h: "resolve accepting_env ?p = (None, ?p, []) \<and>
           two_factor_code ?p = Some '' 123 456 ''"
    by (simp add: resolve_preset [OF preset_all_set]) (simp add: preset_def)
  have "two_factor_code (obj (get_reddit_instance accepting_env ?p)) =
          Some (py_replace_space '' 123 456 '')"
    using cleaning_persists_and_is_idempotent
            [of accepting_env ?p ?p "[]" "'' 123 456 ''"] h
    by blast
  moreover have "constructor_calls
       (events (get_reddit_instance rejecting_env (obj (get_reddit_instance accepting_env ?p)))) =
     constructor_calls (events (get_reddit_instance accepting_env ?p))"
    using cleaning_persists_and_is_idempotent [of accepting_env ?p _ _ _ _ rejecting_env]
          preset_all_set [of "'' 123 456 ''"]
    by blast
  ultimately show ?thesis by (simp add: py_replace_space_def)
qed


subsection \<open>A file without the section or a key\<close>









end
